theory Spec2Isabelle
  imports Main "HOL-Library.Char_ord" "HOL-Library.List_Lexorder" "HOL-Library.Multiset"
begin

section \<open>Python values and the operations the scripts apply to them\<close>

text \<open>
  The two scripts (\<^verbatim>\<open>smartcontract/audit-backup.py\<close> and
  \<^verbatim>\<open>scripts/generate-audit-summary.py\<close>) work on what \<^verbatim>\<open>json.load\<close> returns.
  A parsed document is a \<open>json\<close> value; a dict is an association list whose first
  binding of a key is the dict's value for it, in insertion order. Numbers are Python
  \<^verbatim>\<open>int\<close>s (a JSON number with a fraction is outside the model).

  Text is a \<open>string\<close> holding the UTF-8 bytes of the Python \<^verbatim>\<open>str\<close>; the non-ASCII
  characters of the scripts' literals are written out byte by byte.
\<close>

datatype json =
    JNull
  | JBool bool
  | JNum int
  | JStr string
  | JArr "json list"
  | JObj "(string \<times> json) list"

text \<open>
  An exception is kept with the value and the operation that raised it. The scripts only
  ever catch exceptions by class and format them with \<^verbatim>\<open>str(e)\<close>.
\<close>

datatype py_exc =
    AttributeError json string
  | TypeError json string
  | KeyError string
  | JSONDecodeError string
  | FileNotFoundError string
  | OSError string
  | UnicodeEncodeError string

text \<open>\<^verbatim>\<open>x.get(key, default)\<close>: a method of dicts only.\<close>

definition py_get :: "json \<Rightarrow> string \<Rightarrow> json \<Rightarrow> py_exc + json" where
  "py_get x k dflt =
     (case x of
        JObj kvs \<Rightarrow> (case map_of kvs k of Some v \<Rightarrow> Inr v | None \<Rightarrow> Inr dflt)
      | _ \<Rightarrow> Inl (AttributeError x ''get''))"

text \<open>
  \<^verbatim>\<open>for v in x\<close>: a list gives its elements, a dict its keys, a string its characters
  (one per code point: a lead byte with the continuation bytes that follow it).
\<close>

definition is_continuation :: "char \<Rightarrow> bool" where
  "is_continuation c = (128 \<le> (of_char c :: nat) \<and> (of_char c :: nat) < 192)"

fun code_points :: "string \<Rightarrow> string list" where
  "code_points [] = []"
| "code_points (c # cs) =
     (case code_points cs of
        (q # qs) # ps \<Rightarrow> if is_continuation q then (c # q # qs) # ps else [c] # (q # qs) # ps
      | _ \<Rightarrow> [[c]])"

definition dict_keys :: "(string \<times> json) list \<Rightarrow> string list" where
  "dict_keys kvs = remdups (map fst kvs)"

definition py_iter :: "json \<Rightarrow> py_exc + json list" where
  "py_iter x =
     (case x of
        JArr xs \<Rightarrow> Inr xs
      | JObj kvs \<Rightarrow> Inr (map JStr (dict_keys kvs))
      | JStr s \<Rightarrow> Inr (map JStr (code_points s))
      | _ \<Rightarrow> Inl (TypeError x ''iter''))"

text \<open>\<^verbatim>\<open>len(x)\<close>.\<close>

definition py_len :: "json \<Rightarrow> py_exc + nat" where
  "py_len x =
     (case x of
        JArr xs \<Rightarrow> Inr (length xs)
      | JObj kvs \<Rightarrow> Inr (length (dict_keys kvs))
      | JStr s \<Rightarrow> Inr (length (code_points s))
      | _ \<Rightarrow> Inl (TypeError x ''len''))"

text \<open>Truth value of a parsed value, as \<^verbatim>\<open>if x:\<close> takes it.\<close>

definition py_truthy :: "json \<Rightarrow> bool" where
  "py_truthy x =
     (case x of
        JNull \<Rightarrow> False
      | JBool b \<Rightarrow> b
      | JNum n \<Rightarrow> n \<noteq> 0
      | JStr s \<Rightarrow> s \<noteq> []
      | JArr xs \<Rightarrow> xs \<noteq> []
      | JObj kvs \<Rightarrow> kvs \<noteq> [])"

text \<open>
  \<^verbatim>\<open>x[:n]\<close>: lists and strings are sliced (a string by code points); slicing a dict
  raises (a \<^verbatim>\<open>TypeError\<close> up to CPython 3.11, a \<^verbatim>\<open>KeyError\<close> from 3.12: an
  \<^verbatim>\<open>Exception\<close> either way), as does slicing \<^verbatim>\<open>None\<close>, a number or a boolean.
\<close>

definition py_slice :: "nat \<Rightarrow> json \<Rightarrow> py_exc + json" where
  "py_slice n x =
     (case x of
        JArr xs \<Rightarrow> Inr (JArr (take n xs))
      | JStr s \<Rightarrow> Inr (JStr (concat (take n (code_points s))))
      | _ \<Rightarrow> Inl (TypeError x ''slice''))"

text \<open>
  \<^verbatim>\<open>s.lower()\<close>, a method of strings only. On the UTF-8 bytes only the ASCII capitals
  change; what Python changes beyond them never yields a new occurrence of an ASCII word
  (the only non-ASCII letters whose lower case has an ASCII letter are U+0130, which
  gives \<open>i\<close> followed by U+0307, and U+212A, which gives \<open>k\<close>).
\<close>

definition ascii_lower :: "char \<Rightarrow> char" where
  "ascii_lower c =
     (if 65 \<le> (of_char c :: nat) \<and> (of_char c :: nat) \<le> 90
      then char_of ((of_char c :: nat) + 32) else c)"

definition py_lower :: "json \<Rightarrow> py_exc + string" where
  "py_lower x =
     (case x of
        JStr s \<Rightarrow> Inr (map ascii_lower s)
      | _ \<Rightarrow> Inl (AttributeError x ''lower''))"

text \<open>\<^verbatim>\<open>sub in s\<close> on strings.\<close>

primrec contains :: "string \<Rightarrow> string \<Rightarrow> bool" where
  "contains sub [] = (sub = [])"
| "contains sub (c # cs) = (take (length sub) (c # cs) = sub \<or> contains sub cs)"

section \<open>Impact analysis (\<^verbatim>\<open>SmartContractAuditor._analyze_impacts\<close>)\<close>

text \<open>The dict \<^verbatim>\<open>{'high': 0, 'medium': 0, 'low': 0, 'informational': 0}\<close>.\<close>

record impacts =
  high :: nat
  medium :: nat
  low :: nat
  informational :: nat

definition no_impacts :: impacts where
  "no_impacts = \<lparr>high = 0, medium = 0, low = 0, informational = 0\<rparr>"

text \<open>\<^verbatim>\<open>result.get('impact', '').lower()\<close>.\<close>

definition impact_lower :: "json \<Rightarrow> py_exc + string" where
  "impact_lower result =
     (case py_get result ''impact'' (JStr '''') of
        Inl e \<Rightarrow> Inl e
      | Inr v \<Rightarrow> py_lower v)"

text \<open>One pass of the loop body: the \<^verbatim>\<open>if\<close>/\<^verbatim>\<open>elif\<close> chain on the lowered text.\<close>

definition count_impact :: "string \<Rightarrow> impacts \<Rightarrow> impacts" where
  "count_impact impact imp =
     (if contains ''high'' impact then imp\<lparr>high := high imp + 1\<rparr>
      else if contains ''medium'' impact then imp\<lparr>medium := medium imp + 1\<rparr>
      else if contains ''low'' impact then imp\<lparr>low := low imp + 1\<rparr>
      else imp\<lparr>informational := informational imp + 1\<rparr>)"

fun analyze_loop :: "json list \<Rightarrow> impacts \<Rightarrow> py_exc + impacts" where
  "analyze_loop [] imp = Inr imp"
| "analyze_loop (result # rest) imp =
     (case impact_lower result of
        Inl e \<Rightarrow> Inl e
      | Inr impact \<Rightarrow> analyze_loop rest (count_impact impact imp))"

definition analyze_impacts :: "json \<Rightarrow> py_exc + impacts" where
  "analyze_impacts results =
     (case py_iter results of
        Inl e \<Rightarrow> Inl e
      | Inr rs \<Rightarrow> analyze_loop rs no_impacts)"

text \<open>
  The bucket of a lowered impact text, read off the same chain: 0 for high, 1 for medium,
  2 for low, 3 for informational. Used to state what the counters count.
\<close>

definition bucket_of :: "string \<Rightarrow> nat" where
  "bucket_of impact =
     (if contains ''high'' impact then 0
      else if contains ''medium'' impact then 1
      else if contains ''low'' impact then 2
      else 3)"

definition impact_text :: "json \<Rightarrow> string" where
  "impact_text result = (case impact_lower result of Inr t \<Rightarrow> t | Inl _ \<Rightarrow> [])"

definition in_bucket :: "nat \<Rightarrow> json list \<Rightarrow> nat" where
  "in_bucket b rs = length (filter (\<lambda>r. bucket_of (impact_text r) = b) rs)"


section \<open>More of Python: subscripts, formatting, string tests\<close>

text \<open>\<^verbatim>\<open>x[key]\<close> with a string key: a dict lookup; any other value raises.\<close>

definition py_subscript :: "json \<Rightarrow> string \<Rightarrow> py_exc + json" where
  "py_subscript x k =
     (case x of
        JObj kvs \<Rightarrow> (case map_of kvs k of Some v \<Rightarrow> Inr v | None \<Rightarrow> Inl (KeyError k))
      | _ \<Rightarrow> Inl (TypeError x ''subscript''))"

text \<open>
  What an f-string puts for a value: a string stands for itself; for any other value
  the interpreter's \<^verbatim>\<open>str\<close> is taken as given (\<open>repr\<close>).
\<close>

definition py_str :: "(json \<Rightarrow> string) \<Rightarrow> json \<Rightarrow> string" where
  "py_str repr v = (case v of JStr s \<Rightarrow> s | _ \<Rightarrow> repr v)"

text \<open>A natural number in decimal, as an f-string prints a \<^verbatim>\<open>len\<close> or a counter.\<close>

definition digit :: "nat \<Rightarrow> char" where
  "digit d = ''0123456789'' ! d"

function show_nat :: "nat \<Rightarrow> string" where
  "show_nat n = (if n < 10 then [digit n] else show_nat (n div 10) @ [digit (n mod 10)])"
  by pat_completeness auto
termination
  by (relation "measure id") auto

declare show_nat.simps [simp del]

text \<open>\<^verbatim>\<open>s.startswith(p)\<close>, \<^verbatim>\<open>s.endswith(p)\<close> and \<^verbatim>\<open>sep.join(xs)\<close>.\<close>

definition startswith :: "string \<Rightarrow> string \<Rightarrow> bool" where
  "startswith s p = (take (length p) s = p)"

definition endswith :: "string \<Rightarrow> string \<Rightarrow> bool" where
  "endswith s p = (length p \<le> length s \<and> drop (length s - length p) s = p)"

fun join :: "string \<Rightarrow> string list \<Rightarrow> string" where
  "join sep [] = []"
| "join sep [x] = x"
| "join sep (x # y # ys) = x @ sep @ join sep (y # ys)"

text \<open>
  \<^verbatim>\<open>s.title()\<close> on ASCII text: a letter is put in upper case when the character before
  it is not a letter, in lower case otherwise.
\<close>

definition is_letter :: "char \<Rightarrow> bool" where
  "is_letter c =
     ((65 \<le> (of_char c :: nat) \<and> (of_char c :: nat) \<le> 90) \<or>
      (97 \<le> (of_char c :: nat) \<and> (of_char c :: nat) \<le> 122))"

definition ascii_upper :: "char \<Rightarrow> char" where
  "ascii_upper c =
     (if 97 \<le> (of_char c :: nat) \<and> (of_char c :: nat) \<le> 122
      then char_of ((of_char c :: nat) - 32) else c)"

fun title_from :: "bool \<Rightarrow> string \<Rightarrow> string" where
  "title_from prev [] = []"
| "title_from prev (c # cs) =
     (if is_letter c
      then (if prev then ascii_lower c else ascii_upper c) # title_from True cs
      else c # title_from False cs)"

definition py_title :: "string \<Rightarrow> string" where
  "py_title s = title_from False s"

text \<open>\<^verbatim>\<open>enumerate(xs, 1)\<close>.\<close>

definition enumerate1 :: "'a list \<Rightarrow> (nat \<times> 'a) list" where
  "enumerate1 xs = zip [1 ..< Suc (length xs)] xs"

section \<open>Code points and what can be written to a file\<close>

text \<open>
  A byte of a text that is not part of a well-formed UTF-8 sequence stands for the lone
  surrogate, U+DC80 to U+DCFF, that Python holds for an undecodable byte of a file name
  (\<^verbatim>\<open>surrogateescape\<close>). Such a text can be held, compared, joined and passed to a
  command, but \<^verbatim>\<open>f.write\<close> of it to a file opened in text mode raises
  \<^verbatim>\<open>UnicodeEncodeError\<close>. (A lone surrogate outside that range has no byte to stand
  for it: a JSON document that escapes one is outside the model.)

  A well-formed sequence is a lead byte, which tells its width, followed by trail bytes,
  the first of them in a narrower range after four of the lead bytes (no overlong form,
  no surrogate, nothing above U+10FFFF).
\<close>

definition width :: "int \<Rightarrow> nat" where
  "width b =
     (if b < 128 then 1 else if b < 194 then 0 else if b < 224 then 2
      else if b < 240 then 3 else if b < 245 then 4 else 0)"

definition lead_bits :: "int \<Rightarrow> int" where
  "lead_bits b =
     (if b < 128 then b else if b < 224 then b - 192 else if b < 240 then b - 224 else b - 240)"

definition is_trail :: "int \<Rightarrow> bool" where
  "is_trail b = (128 \<le> b \<and> b < 192)"

definition trails :: "nat \<Rightarrow> int list \<Rightarrow> bool" where
  "trails k bs = (k \<le> length bs \<and> list_all is_trail (take k bs))"

definition second_ok :: "int \<Rightarrow> int list \<Rightarrow> bool" where
  "second_ok b bs =
     (if b = 224 then 160 \<le> bs ! 0
      else if b = 237 then bs ! 0 < 160
      else if b = 240 then 144 \<le> bs ! 0
      else if b = 244 then bs ! 0 < 144
      else True)"

text \<open>
  The code point of the well-formed sequence a list of bytes opens with, and the width
  of that sequence.
\<close>

definition scalar_at :: "int \<Rightarrow> int list \<Rightarrow> (int \<times> nat) option" where
  "scalar_at b bs =
     (if 0 < width b \<and> trails (width b - 1) bs \<and> second_ok b bs
      then Some (foldl (\<lambda>v t. v * 64 + (t - 128)) (lead_bits b) (take (width b - 1) bs), width b)
      else None)"

text \<open>The code points of a list of bytes: 56320 is U+DC00.\<close>

fun code_units :: "int list \<Rightarrow> int list" where
  "code_units [] = []"
| "code_units (b # bs) =
     (case scalar_at b bs of
        Some (cp, n) \<Rightarrow> cp # code_units (drop (n - 1) bs)
      | None \<Rightarrow> (56320 + b) # code_units bs)"

definition ord_list :: "string \<Rightarrow> int list" where
  "ord_list s = code_units (map of_char s)"

text \<open>A text can be encoded when none of its code points is a surrogate.\<close>

definition encodable :: "string \<Rightarrow> bool" where
  "encodable s = list_all (\<lambda>cp. cp < 55296 \<or> 57344 \<le> cp) (ord_list s)"

section \<open>Paths and the contracts directory\<close>

text \<open>
  A \<^verbatim>\<open>Path\<close> is the list of its parts (\<^verbatim>\<open>Path.parts\<close>): the first part of an
  absolute path is its root, and \<^verbatim>\<open>Path('.')\<close> has no part. \<^verbatim>\<open>str\<close> puts the root,
  if there is one, before the other parts joined with a slash, and a dot for the path
  without parts; \<^verbatim>\<open>name\<close> is the last part, the root not counting as one; \<^verbatim>\<open>stem\<close>
  is the name without its last suffix (\<^verbatim>\<open>pathlib\<close> up to CPython 3.13: a dot only
  counts when it is neither the first nor the last character of the name).
\<close>

type_synonym path = "string list"

definition is_root :: "string \<Rightarrow> bool" where
  "is_root part = (part = ''/'' \<or> part = ''//'')"

definition path_str :: "path \<Rightarrow> string" where
  "path_str p =
     (case p of
        [] \<Rightarrow> ''.''
      | part # parts \<Rightarrow> if is_root part then part @ join ''/'' parts else join ''/'' p)"

definition path_name :: "path \<Rightarrow> string" where
  "path_name p =
     (case p of
        [] \<Rightarrow> []
      | part # parts \<Rightarrow> if parts = [] \<and> is_root part then [] else last p)"

fun rfind :: "char \<Rightarrow> string \<Rightarrow> nat option" where
  "rfind c [] = None"
| "rfind c (x # xs) =
     (case rfind c xs of
        Some i \<Rightarrow> Some (Suc i)
      | None \<Rightarrow> if x = c then Some 0 else None)"

definition path_stem :: "path \<Rightarrow> string" where
  "path_stem p =
     (let name = path_name p in
      case rfind (CHR ''.'') name of
        Some i \<Rightarrow> if 0 < i \<and> Suc i < length name then take i name else name
      | None \<Rightarrow> name)"

text \<open>
  Paths are ordered as \<^verbatim>\<open>pathlib\<close> orders them on POSIX: part by part, each part by
  the code points of the \<^verbatim>\<open>str\<close> it is.
\<close>

definition path_key :: "path \<Rightarrow> int list list" where
  "path_key p = map ord_list p"

text \<open>
  What lies under a directory: entries with their names. A \<open>Dir\<close> is a directory that
  \<^verbatim>\<open>glob\<close> descends into; a \<open>File\<close> is any other entry. A directory that does not
  exist, or cannot be listed, has no entries.
\<close>

datatype fs_node = File string | Dir string "fs_node list"

text \<open>
  \<^verbatim>\<open>dir.glob('**/*.sol')\<close>: every entry at any depth under \<open>dir\<close> whose name matches
  \<^verbatim>\<open>*.sol\<close>, a directory of that name included. The order in which \<^verbatim>\<open>glob\<close>
  yields them is the order of the listing.
\<close>

fun walk :: "path \<Rightarrow> fs_node \<Rightarrow> path list" where
  "walk d (File n) = (if endswith n ''.sol'' then [d @ [n]] else [])"
| "walk d (Dir n entries) =
     (if endswith n ''.sol'' then [d @ [n]] else []) @ concat (map (walk (d @ [n])) entries)"

definition glob_sol :: "path \<Rightarrow> fs_node list \<Rightarrow> path list" where
  "glob_sol d entries = concat (map (walk d) entries)"

section \<open>The auditor and its environment\<close>

text \<open>
  \<^verbatim>\<open>SmartContractAuditor\<close>'s attributes, set once by \<^verbatim>\<open>__init__\<close>.
\<close>

record auditor =
  contracts_dir :: path
  reports_dir :: path
  timestamp :: string

text \<open>
  What a call of \<^verbatim>\<open>subprocess.run\<close> comes to: the process ends with a return code and
  its two output streams, or it exceeds the timeout, or the call raises another
  exception (the program cannot be run, its output cannot be decoded).
\<close>

datatype proc_outcome =
    Completed int string string
  | TimeoutExpired
  | Raised py_exc

text \<open>
  Everything the script takes from outside itself:
  \<^item> \<open>listdir\<close>: what lies under a directory;
  \<^item> \<open>path_exists\<close>: whether a path given on the command line exists;
  \<^item> \<open>run\<close>: the outcome of running a command line;
  \<^item> \<open>output_after\<close>: the output file a command line names, as found right after the
    command has run: absent (\<open>None\<close>), or there, with what opening it and
    \<^verbatim>\<open>json.load\<close> give, a document or an exception;
  \<^item> \<open>output_at_report\<close>: the same for a file by its name, at the time the report is
    written;
  \<^item> \<open>now\<close>: what \<^verbatim>\<open>datetime.datetime.now()\<close> prints while the file of a given name
    is being written;
  \<^item> \<open>exc_str\<close>: \<^verbatim>\<open>str(e)\<close> of an exception; \<open>repr\<close>: \<^verbatim>\<open>str(v)\<close> of a parsed value
    that is not a string;
  \<^item> \<open>open_error\<close>: the exception \<^verbatim>\<open>open(name, 'w')\<close> raises for a file, if it does;
  \<^item> \<open>mkdir_error\<close>: the exception \<^verbatim>\<open>mkdir(parents=True, exist_ok=True)\<close> raises for
    a directory, if it does;
  \<^item> \<open>executable\<close>: \<^verbatim>\<open>sys.executable\<close>.
  A file that was opened takes every text that can be encoded (the device does not fail);
  what is printed on the console is left out, and printing is taken to succeed.
\<close>

record env =
  listdir :: "path \<Rightarrow> fs_node list"
  path_exists :: "path \<Rightarrow> bool"
  run :: "string list \<Rightarrow> proc_outcome"
  output_after :: "string list \<Rightarrow> (py_exc + json) option"
  output_at_report :: "string \<Rightarrow> (py_exc + json) option"
  now :: "string \<Rightarrow> string"
  exc_str :: "py_exc \<Rightarrow> string"
  repr :: "json \<Rightarrow> string"
  open_error :: "string \<Rightarrow> py_exc option"
  mkdir_error :: "path \<Rightarrow> py_exc option"
  executable :: string

text \<open>
  What the script has done to the world: the files it has written, name to content, and
  the command lines it has passed to \<^verbatim>\<open>subprocess.run\<close>, in order.
\<close>

record world =
  files :: "string \<rightharpoonup> string"
  calls :: "string list list"

definition subprocess_run :: "env \<Rightarrow> world \<Rightarrow> string list \<Rightarrow> world \<times> proc_outcome" where
  "subprocess_run e w cmd = (w\<lparr>calls := calls w @ [cmd]\<rparr>, run e cmd)"

section \<open>Contract discovery (\<^verbatim>\<open>find_contract_files\<close>)\<close>

definition keep_contract :: "path \<Rightarrow> bool" where
  "keep_contract file_path =
     (\<not> contains ''node_modules'' (path_str file_path) \<and>
      \<not> startswith (path_name file_path) ''Test'')"

definition find_contract_files :: "env \<Rightarrow> auditor \<Rightarrow> path list" where
  "find_contract_files e a =
     sort_key path_key
       (filter keep_contract (glob_sol (contracts_dir a) (listdir e (contracts_dir a))))"

section \<open>Tool runs\<close>

text \<open>
  The dict a tool run returns. A key the dict does not have is \<open>None\<close>; the key
  \<^verbatim>\<open>'output_file'\<close> bound to Python's \<^verbatim>\<open>None\<close> is \<open>None\<close> as well (it is only
  ever read with \<^verbatim>\<open>get\<close> and tested for truth).
\<close>

record run_result =
  success :: bool
  error :: "string option"
  stdout :: "string option"
  stderr :: "string option"
  output_file :: "string option"
  r_timestamp :: "string option"
  contract :: "string option"
  findings :: "nat option"
  impacts :: "impacts option"
  issues :: "json option"

text \<open>\<^verbatim>\<open>{'success': False, 'error': msg}\<close>, with \<^verbatim>\<open>'contract'\<close> where the source adds it.\<close>

definition failed :: "string \<Rightarrow> string option \<Rightarrow> run_result" where
  "failed msg name =
     \<lparr>success = False, error = Some msg, stdout = None, stderr = None, output_file = None,
      r_timestamp = None, contract = name, findings = None, impacts = None, issues = None\<rparr>"

text \<open>The dict built right after \<^verbatim>\<open>subprocess.run\<close> has returned.\<close>

definition completed :: "auditor \<Rightarrow> int \<Rightarrow> string \<Rightarrow> string \<Rightarrow> string option \<Rightarrow> string option
    \<Rightarrow> run_result" where
  "completed a rc out err file name =
     \<lparr>success = (rc = 0), error = None, stdout = Some out, stderr = Some err,
      output_file = file, r_timestamp = Some (timestamp a), contract = name,
      findings = None, impacts = None, issues = None\<rparr>"

subsection \<open>\<^verbatim>\<open>run_slither_analysis\<close>\<close>

definition slither_output_file :: "auditor \<Rightarrow> path" where
  "slither_output_file a = reports_dir a @ [''slither_report_'' @ timestamp a @ ''.json'']"

definition slither_target :: "auditor \<Rightarrow> path option \<Rightarrow> string" where
  "slither_target a contract_path =
     (case contract_path of Some p \<Rightarrow> path_str p | None \<Rightarrow> path_str (contracts_dir a))"

definition slither_cmd :: "auditor \<Rightarrow> path option \<Rightarrow> string list" where
  "slither_cmd a contract_path =
     [''slither'', slither_target a contract_path,
      ''--json'', path_str (slither_output_file a),
      ''--filter-paths'', ''node_modules/'',
      ''--exclude'', ''naming-convention,external-function'']"

text \<open>\<^verbatim>\<open>data.get('results', {}).get('detectors', [])\<close>.\<close>

definition get_detectors :: "json \<Rightarrow> py_exc + json" where
  "get_detectors data =
     (case py_get data ''results'' (JObj []) of
        Inl ex \<Rightarrow> Inl ex
      | Inr results \<Rightarrow> py_get results ''detectors'' (JArr []))"

text \<open>Parsing and summarising the report: the number of findings and their impacts.\<close>

definition slither_summarize :: "json \<Rightarrow> py_exc + nat \<times> impacts" where
  "slither_summarize data =
     (case get_detectors data of
        Inl ex \<Rightarrow> Inl ex
      | Inr results \<Rightarrow>
          (case py_len results of
             Inl ex \<Rightarrow> Inl ex
           | Inr n \<Rightarrow>
               (case analyze_impacts results of
                  Inl ex \<Rightarrow> Inl ex
                | Inr imp \<Rightarrow> Inr (n, imp))))"

definition run_slither_analysis ::
    "env \<Rightarrow> auditor \<Rightarrow> world \<Rightarrow> path option \<Rightarrow> world \<times> run_result" where
  "run_slither_analysis e a w contract_path =
     (let cmd = slither_cmd a contract_path;
          ran = subprocess_run e w cmd;
          file = output_after e cmd
      in (fst ran,
          case snd ran of
            TimeoutExpired \<Rightarrow> failed ''timeout'' None
          | Raised ex \<Rightarrow> failed (exc_str e ex) None
          | Completed rc out err \<Rightarrow>
              (let slither_results =
                     completed a rc out err
                       (if file = None then None else Some (path_str (slither_output_file a)))
                       None
               in if rc = 0 then
                    (case file of
                       None \<Rightarrow> slither_results
                     | Some (Inl ex) \<Rightarrow> failed (exc_str e ex) None
                     | Some (Inr data) \<Rightarrow>
                         (case slither_summarize data of
                            Inl ex \<Rightarrow> failed (exc_str e ex) None
                          | Inr (n, imp) \<Rightarrow>
                              slither_results\<lparr>findings := Some n, impacts := Some imp\<rparr>))
                  else slither_results)))"

subsection \<open>\<^verbatim>\<open>run_mythril_analysis\<close>\<close>

definition mythril_output_file :: "auditor \<Rightarrow> path \<Rightarrow> path" where
  "mythril_output_file a contract_path =
     reports_dir a @
       [''mythril_report_'' @ path_stem contract_path @ ''_'' @ timestamp a @ ''.json'']"

definition mythril_cmd :: "auditor \<Rightarrow> path \<Rightarrow> string list" where
  "mythril_cmd a contract_path =
     [''myth'', ''analyze'', path_str contract_path,
      ''--solv'', ''0.8.19'',
      ''--execution-timeout'', ''120'',
      ''--json'', path_str (mythril_output_file a contract_path)]"

text \<open>
  The loop that logs the first five issues. Only whether it raises matters here: each
  issue must have \<^verbatim>\<open>get\<close>, and its description must take \<^verbatim>\<open>[:100]\<close>.
\<close>

definition log_issue :: "json \<Rightarrow> py_exc option" where
  "log_issue issue =
     (case py_get issue ''title'' (JStr ''Unknown issue'') of
        Inl ex \<Rightarrow> Some ex
      | Inr _ \<Rightarrow>
          (case py_get issue ''description'' (JStr []) of
             Inl ex \<Rightarrow> Some ex
           | Inr d \<Rightarrow> (case py_slice 100 d of Inl ex \<Rightarrow> Some ex | Inr _ \<Rightarrow> None)))"

fun first_raised :: "('a \<Rightarrow> py_exc option) \<Rightarrow> 'a list \<Rightarrow> py_exc option" where
  "first_raised f [] = None"
| "first_raised f (x # xs) = (case f x of Some ex \<Rightarrow> Some ex | None \<Rightarrow> first_raised f xs)"

definition log_issues :: "json \<Rightarrow> py_exc option" where
  "log_issues issues_v =
     (case py_slice 5 issues_v of
        Inl ex \<Rightarrow> Some ex
      | Inr first \<Rightarrow>
          (case py_iter first of
             Inl ex \<Rightarrow> Some ex
           | Inr xs \<Rightarrow> first_raised log_issue xs))"

definition mythril_summarize :: "json \<Rightarrow> py_exc + nat \<times> json" where
  "mythril_summarize data =
     (case py_get data ''issues'' (JArr []) of
        Inl ex \<Rightarrow> Inl ex
      | Inr issues_v \<Rightarrow>
          (case py_len issues_v of
             Inl ex \<Rightarrow> Inl ex
           | Inr n \<Rightarrow>
               (case log_issues issues_v of
                  Some ex \<Rightarrow> Inl ex
                | None \<Rightarrow> Inr (n, issues_v))))"

definition run_mythril_analysis ::
    "env \<Rightarrow> auditor \<Rightarrow> world \<Rightarrow> path \<Rightarrow> world \<times> run_result" where
  "run_mythril_analysis e a w contract_path =
     (let cmd = mythril_cmd a contract_path;
          ran = subprocess_run e w cmd;
          file = output_after e cmd;
          name = Some (path_name contract_path)
      in (fst ran,
          case snd ran of
            TimeoutExpired \<Rightarrow> failed ''timeout'' name
          | Raised ex \<Rightarrow> failed (exc_str e ex) name
          | Completed rc out err \<Rightarrow>
              (let mythril_results =
                     completed a rc out err
                       (if file = None then None
                        else Some (path_str (mythril_output_file a contract_path)))
                       name
               in if rc = 0 then
                    (case file of
                       None \<Rightarrow> mythril_results
                     | Some (Inl ex) \<Rightarrow> failed (exc_str e ex) name
                     | Some (Inr data) \<Rightarrow>
                         (case mythril_summarize data of
                            Inl ex \<Rightarrow> failed (exc_str e ex) name
                          | Inr (n, issues_v) \<Rightarrow>
                              mythril_results\<lparr>findings := Some n, issues := Some issues_v\<rparr>))
                  else mythril_results)))"

subsection \<open>Writing a file\<close>

text \<open>
  A file is written piece by piece with \<^verbatim>\<open>f.write\<close>, and an exception raised on the
  way leaves what was written before it in the file. A writer is the list of the pieces
  written, with the exception that stopped it, if one did.
\<close>

type_synonym out = "string list \<times> py_exc option"

definition wr :: "string \<Rightarrow> out" where
  "wr s = ([s], None)"

definition skip :: out where
  "skip = ([], None)"

definition throw :: "py_exc \<Rightarrow> out" where
  "throw ex = ([], Some ex)"

definition seq :: "out \<Rightarrow> out \<Rightarrow> out" where
  "seq p q = (case snd p of Some ex \<Rightarrow> p | None \<Rightarrow> (fst p @ fst q, snd q))"

fun seqs :: "out list \<Rightarrow> out" where
  "seqs [] = skip"
| "seqs (p # ps) = seq p (seqs ps)"

text \<open>Continue with a value, or stop with the exception its computation raised.\<close>

definition with_val :: "py_exc + 'a \<Rightarrow> ('a \<Rightarrow> out) \<Rightarrow> out" where
  "with_val v f = (case v of Inl ex \<Rightarrow> throw ex | Inr x \<Rightarrow> f x)"

text \<open>
  \<^verbatim>\<open>f.write(s)\<close> on a file opened in text mode: the text is written if it can be
  encoded, and \<^verbatim>\<open>UnicodeEncodeError\<close> is raised if not. (\<open>wr\<close> is the write that
  cannot fail: \<^verbatim>\<open>append\<close> to a list.)
\<close>

definition fwrite :: "string \<Rightarrow> out" where
  "fwrite s = (if encodable s then wr s else throw (UnicodeEncodeError s))"

text \<open>
  \<^verbatim>\<open>with open(name, 'w') as f:\<close> around a writer: if the file cannot be opened nothing
  happens to it; if it can, it holds what the writer wrote, to the end or to the
  exception that is then passed on.
\<close>

definition write_file :: "env \<Rightarrow> world \<Rightarrow> string \<Rightarrow> out \<Rightarrow> world \<times> py_exc option" where
  "write_file e w name p =
     (case open_error e name of
        Some ex \<Rightarrow> (w, Some ex)
      | None \<Rightarrow> (w\<lparr>files := (files w)(name \<mapsto> concat (fst p))\<rparr>, snd p))"

subsection \<open>\<^verbatim>\<open>run_gas_analysis\<close>\<close>

definition gas_output_file :: "auditor \<Rightarrow> path \<Rightarrow> path" where
  "gas_output_file a contract_path =
     reports_dir a @
       [''gas_analysis_'' @ path_stem contract_path @ ''_'' @ timestamp a @ ''.txt'']"

definition gas_cmd :: "path \<Rightarrow> string list" where
  "gas_cmd contract_path =
     [''slither'', path_str contract_path,
      ''--print'', ''function-calls'',
      ''--print'', ''variable-locations'',
      ''--print'', ''data-dependencies'']"

text \<open>The seven texts written to the file of a gas analysis.\<close>

definition gas_report_pieces :: "string \<Rightarrow> string \<Rightarrow> string \<Rightarrow> string \<Rightarrow> string list" where
  "gas_report_pieces name generated out err =
     [''Gas Analysis Report for '' @ name @ ''\<newline>'',
      ''Generated: '' @ generated @ ''\<newline>'',
      replicate 50 (CHR ''='') @ ''\<newline>\<newline>'',
      ''STDOUT:\<newline>'',
      out,
      ''\<newline>STDERR:\<newline>'',
      err]"

definition run_gas_analysis ::
    "env \<Rightarrow> auditor \<Rightarrow> world \<Rightarrow> path \<Rightarrow> world \<times> run_result" where
  "run_gas_analysis e a w contract_path =
     (let file = path_str (gas_output_file a contract_path);
          name = path_name contract_path;
          ran = subprocess_run e w (gas_cmd contract_path)
      in case snd ran of
           TimeoutExpired \<Rightarrow> (fst ran, failed ''timeout'' (Some name))
         | Raised ex \<Rightarrow> (fst ran, failed (exc_str e ex) (Some name))
         | Completed rc out err \<Rightarrow>
             (let written =
                    write_file e (fst ran) file
                      (seqs (map fwrite (gas_report_pieces name (now e file) out err)))
              in (fst written,
                  case snd written of
                    Some ex \<Rightarrow> failed (exc_str e ex) (Some name)
                  | None \<Rightarrow>
                      \<lparr>success = (rc = 0), error = None, stdout = None, stderr = None,
                       output_file = Some file, r_timestamp = None, contract = Some name,
                       findings = None, impacts = None, issues = None\<rparr>)))"

section \<open>The comprehensive report (\<^verbatim>\<open>generate_comprehensive_report\<close>)\<close>

text \<open>The check mark and the cross of the source's literals, in UTF-8.\<close>

definition check_mark :: string where
  "check_mark = [CHR 0xE2, CHR 0x9C, CHR 0x85]"

definition cross_mark :: string where
  "cross_mark = [CHR 0xE2, CHR 0x9D, CHR 0x8C]"

text \<open>A line \<^verbatim>\<open>label {x.get(key, default)}end\<close>.\<close>

definition field_line :: "env \<Rightarrow> string \<Rightarrow> json \<Rightarrow> string \<Rightarrow> string \<Rightarrow> string \<Rightarrow> out" where
  "field_line e label x key dflt ending =
     with_val (py_get x key (JStr dflt)) (\<lambda>v. fwrite (label @ py_str (repr e) v @ ending))"

subsection \<open>Slither findings\<close>

definition render_element :: "env \<Rightarrow> json \<Rightarrow> out" where
  "render_element e element =
     with_val (py_get element ''source_mapping'' JNull) (\<lambda>sm.
       if py_truthy sm
       then with_val (py_subscript sm ''filename'') (\<lambda>fn.
              fwrite (''- `'' @ py_str (repr e) fn @ ''`\<newline>''))
       else skip)"

definition render_elements :: "env \<Rightarrow> json \<Rightarrow> out" where
  "render_elements e detector =
     with_val (py_get detector ''elements'' JNull) (\<lambda>elements.
       if py_truthy elements
       then seqs
              [fwrite ''**Affected Files:**\<newline>'',
               with_val (py_slice 3 elements) (\<lambda>first.
                 with_val (py_iter first) (\<lambda>xs. seqs (map (render_element e) xs))),
               fwrite ''\<newline>'']
       else skip)"

definition render_detector :: "env \<Rightarrow> nat \<times> json \<Rightarrow> out" where
  "render_detector e numbered =
     (let i = fst numbered; detector = snd numbered in
      seqs
        [field_line e (''#### '' @ show_nat i @ ''. '') detector ''check'' ''Unknown''
           ''\<newline>\<newline>'',
         field_line e ''**Impact:** '' detector ''impact'' ''Unknown'' ''\<newline>'',
         field_line e ''**Confidence:** '' detector ''confidence'' ''Unknown'' ''\<newline>'',
         field_line e ''**Description:** '' detector ''description'' ''No description''
           ''\<newline>\<newline>'',
         render_elements e detector,
         with_val (py_get detector ''id'' JNull) (\<lambda>v.
           if py_truthy v
           then fwrite (''**Detector ID:** `'' @ py_str (repr e) v @ ''`\<newline>\<newline>'')
           else skip)])"

definition render_detectors :: "env \<Rightarrow> json \<Rightarrow> out" where
  "render_detectors e detectors =
     (if py_truthy detectors
      then seq (fwrite ''### Detailed Findings\<newline>\<newline>'')
             (with_val (py_slice 10 detectors) (\<lambda>first.
                with_val (py_iter first) (\<lambda>ds.
                  seqs (map (render_detector e) (enumerate1 ds)))))
      else fwrite ''No security issues found by Slither.\<newline>\<newline>'')"

text \<open>\<^verbatim>\<open>if result.get('error'): f.write(f"Error: {result['error']}\n\n")\<close>.\<close>

definition error_line :: "run_result \<Rightarrow> out" where
  "error_line r =
     (case error r of
        Some msg \<Rightarrow> if msg \<noteq> [] then fwrite (''Error: '' @ msg @ ''\<newline>\<newline>'') else skip
      | None \<Rightarrow> skip)"

definition slither_section :: "env \<Rightarrow> run_result \<Rightarrow> out" where
  "slither_section e slither_results =
     seq (fwrite ''## Slither Static Analysis Results\<newline>\<newline>'')
       (if success slither_results
        then seq (fwrite (check_mark @ '' Slither analysis completed successfully\<newline>\<newline>''))
               (case output_file slither_results of
                  None \<Rightarrow> skip
                | Some file \<Rightarrow>
                    if file = [] then skip
                    else (case output_at_report e file of
                            None \<Rightarrow> skip
                          | Some loaded \<Rightarrow>
                              with_val loaded (\<lambda>slither_data.
                                with_val (get_detectors slither_data) (render_detectors e))))
        else seq (fwrite (cross_mark @ '' Slither analysis failed\<newline>\<newline>''))
               (error_line slither_results))"

subsection \<open>Mythril issues\<close>

definition render_location :: "env \<Rightarrow> json \<Rightarrow> out" where
  "render_location e loc =
     with_val (py_get loc ''start_line'' (JStr ''Unknown'')) (\<lambda>line.
       with_val (py_get loc ''source_map'' (JStr ''Unknown'')) (\<lambda>source_map.
         fwrite (''- Line '' @ py_str (repr e) line @ '' in '' @ py_str (repr e) source_map
               @ ''\<newline>'')))"

definition render_locations :: "env \<Rightarrow> json \<Rightarrow> out" where
  "render_locations e issue =
     with_val (py_get issue ''locations'' JNull) (\<lambda>locations.
       if py_truthy locations
       then seqs
              [fwrite ''**Locations:**\<newline>'',
               with_val (py_iter locations) (\<lambda>ls. seqs (map (render_location e) ls)),
               fwrite ''\<newline>'']
       else skip)"

definition render_issue :: "env \<Rightarrow> nat \<times> json \<Rightarrow> out" where
  "render_issue e numbered =
     (let i = fst numbered; issue = snd numbered in
      seqs
        [field_line e (''#### '' @ show_nat i @ ''. '') issue ''title'' ''Unknown Issue''
           ''\<newline>\<newline>'',
         field_line e ''**Severity:** '' issue ''severity'' ''Unknown'' ''\<newline>'',
         field_line e ''**Description:** '' issue ''description'' ''No description''
           ''\<newline>\<newline>'',
         render_locations e issue])"

definition contract_heading :: "run_result \<Rightarrow> string" where
  "contract_heading r =
     ''### '' @ (case contract r of Some name \<Rightarrow> name | None \<Rightarrow> ''Unknown'')
       @ ''\<newline>\<newline>''"

definition render_issues :: "env \<Rightarrow> json \<Rightarrow> out" where
  "render_issues e issues_v =
     (if py_truthy issues_v
      then with_val (py_slice 5 issues_v) (\<lambda>first.
             with_val (py_iter first) (\<lambda>xs. seqs (map (render_issue e) (enumerate1 xs))))
      else fwrite ''No security issues found by Mythril.\<newline>\<newline>'')"

definition render_mythril :: "env \<Rightarrow> run_result \<Rightarrow> out" where
  "render_mythril e r =
     seq (fwrite (contract_heading r))
       (if success r
        then seq (fwrite (check_mark @ '' Analysis completed successfully\<newline>\<newline>''))
               (render_issues e (case issues r of Some v \<Rightarrow> v | None \<Rightarrow> JArr []))
        else seq (fwrite (cross_mark @ '' Analysis failed\<newline>\<newline>'')) (error_line r))"

definition mythril_section :: "env \<Rightarrow> run_result list \<Rightarrow> out" where
  "mythril_section e mythril_results =
     seq (fwrite ''## Mythril Symbolic Analysis Results\<newline>\<newline>'')
       (seqs (map (render_mythril e) mythril_results))"

subsection \<open>Gas analysis\<close>

definition render_gas :: "run_result \<Rightarrow> out" where
  "render_gas r =
     seq (fwrite (contract_heading r))
       (if success r
        then seq (fwrite (check_mark @ '' Gas analysis completed successfully\<newline>\<newline>''))
               (case output_file r of
                  Some file \<Rightarrow>
                    if file \<noteq> [] then fwrite (''Detailed report: `'' @ file @ ''`\<newline>\<newline>'')
                    else skip
                | None \<Rightarrow> skip)
        else fwrite (cross_mark @ '' Gas analysis failed\<newline>\<newline>''))"

definition gas_section :: "run_result list \<Rightarrow> out" where
  "gas_section gas_results =
     seq (fwrite ''## Gas Analysis Results\<newline>\<newline>'') (seqs (map render_gas gas_results))"

subsection \<open>Head, summary and closing sections\<close>

definition report_head :: "env \<Rightarrow> auditor \<Rightarrow> string \<Rightarrow> out" where
  "report_head e a report_file =
     seqs
       [fwrite ''# Rabbit Launchpad Smart Contract Audit Report\<newline>\<newline>'',
        fwrite (''**Generated:** '' @ now e report_file @ ''\<newline>''),
        fwrite (''**Timestamp:** '' @ timestamp a @ ''\<newline>\<newline>'')]"

text \<open>\<^verbatim>\<open>r.get('findings', 0)\<close>.\<close>

definition findings_of :: "run_result \<Rightarrow> nat" where
  "findings_of r = (case findings r of Some n \<Rightarrow> n | None \<Rightarrow> 0)"

text \<open>\<^verbatim>\<open>impacts.items()\<close>, in the order the keys were put in.\<close>

definition impact_items :: "impacts \<Rightarrow> (string \<times> nat) list" where
  "impact_items imp =
     [(''high'', high imp), (''medium'', medium imp), (''low'', low imp),
      (''informational'', informational imp)]"

definition impact_levels :: "run_result \<Rightarrow> out" where
  "impact_levels slither_results =
     (case impacts slither_results of
        None \<Rightarrow> skip
      | Some imp \<Rightarrow>
          seqs
            ([fwrite ''### Slither Impact Levels\<newline>\<newline>''] @
             map (\<lambda>item. fwrite (''- **'' @ py_title (fst item) @ '':** '' @ show_nat (snd item)
                               @ ''\<newline>''))
               (impact_items imp) @
             [fwrite ''\<newline>'']))"

definition executive_summary :: "env \<Rightarrow> auditor \<Rightarrow> run_result \<Rightarrow> run_result list \<Rightarrow> out" where
  "executive_summary e a slither_results mythril_results =
     (let total_slither_findings = findings_of slither_results;
          total_mythril_findings = sum_list (map findings_of mythril_results)
      in seqs
           [fwrite ''## Executive Summary\<newline>\<newline>'',
            fwrite (''- **Total Slither Findings:** '' @ show_nat total_slither_findings
                  @ ''\<newline>''),
            fwrite (''- **Total Mythril Findings:** '' @ show_nat total_mythril_findings
                  @ ''\<newline>''),
            fwrite (''- **Contracts Analyzed:** '' @ show_nat (length (find_contract_files e a))
                  @ ''\<newline>\<newline>''),
            impact_levels slither_results])"

definition closing :: out where
  "closing =
     seqs
       [fwrite ''## Security Recommendations\<newline>\<newline>'',
        fwrite ''### High Priority\<newline>\<newline>'',
        fwrite ''1. Review all high-impact findings from Slither\<newline>'',
        fwrite ''2. Address any critical security issues found by Mythril\<newline>'',
        fwrite ''3. Implement proper access controls if missing\<newline>\<newline>'',
        fwrite ''### Medium Priority\<newline>\<newline>'',
        fwrite ''1. Optimize gas usage for frequently called functions\<newline>'',
        fwrite ''2. Review and improve code documentation\<newline>'',
        fwrite ''3. Add more comprehensive test coverage\<newline>\<newline>'',
        fwrite ''### Low Priority\<newline>\<newline>'',
        fwrite ''1. Address code style and naming convention issues\<newline>'',
        fwrite ''2. Optimize for readability and maintainability\<newline>\<newline>'',
        fwrite ''## Next Steps\<newline>\<newline>'',
        fwrite ''1. Review all findings in detail\<newline>'',
        fwrite ''2. Implement fixes for identified issues\<newline>'',
        fwrite ''3. Re-run analysis after fixes\<newline>'',
        fwrite ''4. Consider third-party professional audit\<newline>'',
        fwrite ''5. Deploy to testnet for thorough testing\<newline>\<newline>'',
        fwrite ''---\<newline>'',
        fwrite (''*This report was generated automatically using Slither and Mythril ''
              @ ''static analysis tools.*\<newline>'')]"

text \<open>Everything after the three lines of the head.\<close>

definition report_body :: "env \<Rightarrow> auditor \<Rightarrow> run_result \<Rightarrow> run_result list \<Rightarrow> run_result list
    \<Rightarrow> out" where
  "report_body e a slither_results mythril_results gas_results =
     seqs
       [executive_summary e a slither_results mythril_results,
        slither_section e slither_results,
        mythril_section e mythril_results,
        gas_section gas_results,
        closing]"

definition report_file_of :: "auditor \<Rightarrow> string" where
  "report_file_of a =
     path_str (reports_dir a @ [''comprehensive_audit_report_'' @ timestamp a @ ''.md''])"

definition report_out :: "env \<Rightarrow> auditor \<Rightarrow> run_result \<Rightarrow> run_result list \<Rightarrow> run_result list
    \<Rightarrow> out" where
  "report_out e a slither_results mythril_results gas_results =
     seq (report_head e a (report_file_of a))
       (report_body e a slither_results mythril_results gas_results)"

text \<open>
  The function itself: the file holds what was written; the path is returned unless an
  exception went through.
\<close>

definition generate_comprehensive_report ::
    "env \<Rightarrow> auditor \<Rightarrow> world \<Rightarrow> run_result \<Rightarrow> run_result list \<Rightarrow> run_result list
     \<Rightarrow> world \<times> (py_exc + string)" where
  "generate_comprehensive_report e a w slither_results mythril_results gas_results =
     (let report_file = report_file_of a;
          written =
            write_file e w report_file
              (report_out e a slither_results mythril_results gas_results)
      in (fst written,
          case snd written of Some ex \<Rightarrow> Inl ex | None \<Rightarrow> Inr report_file))"

section \<open>The session (\<^verbatim>\<open>check_prerequisites\<close>, \<^verbatim>\<open>audit_contracts\<close>, \<^verbatim>\<open>main\<close>)\<close>

text \<open>
  The required tools, in the order of the dict \<^verbatim>\<open>tools\<close>: its keys are also the
  commands.
\<close>

definition tools :: "(string \<times> string) list" where
  "tools = [(''slither'', ''slither''), (''myth'', ''myth''), (''solc'', ''solc'')]"

text \<open>
  The loop that collects \<^verbatim>\<open>missing_tools\<close>: a tool is missing when its
  \<^verbatim>\<open>--version\<close> run ends with a return code other than 0, exceeds the timeout, or
  raises \<^verbatim>\<open>FileNotFoundError\<close>. Any other exception leaves the function, and the
  tools after it are not checked.
\<close>

fun missing_tools ::
    "env \<Rightarrow> world \<Rightarrow> (string \<times> string) list \<Rightarrow> world \<times> (py_exc + string list)" where
  "missing_tools e w [] = (w, Inr [])"
| "missing_tools e w ((tool_name, command) # rest) =
     (let ran = subprocess_run e w [command, ''--version''];
          more = missing_tools e (fst ran) rest
      in case snd ran of
           Completed rc out err \<Rightarrow>
             (fst more,
              case snd more of
                Inl ex \<Rightarrow> Inl ex
              | Inr ms \<Rightarrow> Inr (if rc = 0 then ms else tool_name # ms))
         | TimeoutExpired \<Rightarrow>
             (fst more,
              case snd more of
                Inl ex \<Rightarrow> Inl ex
              | Inr ms \<Rightarrow> Inr (tool_name # ms))
         | Raised (FileNotFoundError m) \<Rightarrow>
             (fst more,
              case snd more of
                Inl ex \<Rightarrow> Inl ex
              | Inr ms \<Rightarrow> Inr (tool_name # ms))
         | Raised ex \<Rightarrow> (fst ran, Inl ex))"

definition check_prerequisites :: "env \<Rightarrow> world \<Rightarrow> world \<times> (py_exc + bool)" where
  "check_prerequisites e w =
     (let checked = missing_tools e w tools
      in (fst checked,
          case snd checked of
            Inl ex \<Rightarrow> Inl ex
          | Inr ms \<Rightarrow> Inr (ms = [])))"

text \<open>
  The two loops over the contracts: each runs one analysis on every contract in turn and
  appends its result.
\<close>

fun mythril_loop ::
    "env \<Rightarrow> auditor \<Rightarrow> world \<Rightarrow> path list \<Rightarrow> world \<times> run_result list" where
  "mythril_loop e a w [] = (w, [])"
| "mythril_loop e a w (c # cs) =
     (let step = run_mythril_analysis e a w c;
          rest = mythril_loop e a (fst step) cs
      in (fst rest, snd step # snd rest))"

fun gas_loop :: "env \<Rightarrow> auditor \<Rightarrow> world \<Rightarrow> path list \<Rightarrow> world \<times> run_result list" where
  "gas_loop e a w [] = (w, [])"
| "gas_loop e a w (c # cs) =
     (let step = run_gas_analysis e a w c;
          rest = gas_loop e a (fst step) cs
      in (fst rest, snd step # snd rest))"

text \<open>
  What \<^verbatim>\<open>audit_contracts\<close> returns: the short dict of a session that stopped before
  any analysis, with its \<^verbatim>\<open>'error'\<close>, or the full dict, whose \<^verbatim>\<open>'success'\<close> is
  \<^verbatim>\<open>True\<close>.
\<close>

record audit_report =
  a_timestamp :: string
  contracts_analyzed :: nat
  slither_results :: run_result
  mythril_results :: "run_result list"
  gas_results :: "run_result list"
  report_file :: string

datatype audit_results = AuditFailed string | AuditDone audit_report

definition audit_contracts ::
    "env \<Rightarrow> auditor \<Rightarrow> world \<Rightarrow> path option \<Rightarrow> bool \<Rightarrow> bool
     \<Rightarrow> world \<times> (py_exc + audit_results)" where
  "audit_contracts e a w contract_path run_mythril run_gas =
     (let checked = check_prerequisites e w
      in case snd checked of
           Inl ex \<Rightarrow> (fst checked, Inl ex)
         | Inr ok \<Rightarrow>
             if \<not> ok then (fst checked, Inr (AuditFailed ''prerequisites_failed''))
             else
               (let contract_files =
                      (case contract_path of
                         Some p \<Rightarrow> [p]
                       | None \<Rightarrow> find_contract_files e a)
                in if contract_files = []
                   then (fst checked, Inr (AuditFailed ''no_contracts_found''))
                   else
                     (let slither = run_slither_analysis e a (fst checked) contract_path;
                          mythril =
                            (if run_mythril then mythril_loop e a (fst slither) contract_files
                             else (fst slither, []));
                          gas =
                            (if run_gas then gas_loop e a (fst mythril) contract_files
                             else (fst mythril, []));
                          report =
                            generate_comprehensive_report e a (fst gas) (snd slither)
                              (snd mythril) (snd gas)
                      in (fst report,
                          case snd report of
                            Inl ex \<Rightarrow> Inl ex
                          | Inr file \<Rightarrow>
                              Inr (AuditDone
                                     \<lparr>a_timestamp = timestamp a,
                                      contracts_analyzed = length contract_files,
                                      slither_results = snd slither,
                                      mythril_results = snd mythril,
                                      gas_results = snd gas,
                                      report_file = file\<rparr>)))))"

text \<open>
  The command line, after \<^verbatim>\<open>argparse\<close>; the two directories are in the auditor that
  \<^verbatim>\<open>main\<close> builds from it, with the timestamp of that moment.
\<close>

record args =
  arg_contract :: "path option"
  no_mythril :: bool
  no_gas :: bool
  install_deps :: bool

definition pip_cmd :: "env \<Rightarrow> string list" where
  "pip_cmd e =
     [executable e, ''-m'', ''pip'', ''install'', ''-r'', ''smartcontract/requirements-audit.txt'']"

text \<open>
  The exit status \<^verbatim>\<open>sys.exit(main())\<close> ends with: \<^verbatim>\<open>main\<close> returns nothing after
  installing the dependencies (status 0), 1 when the contract named on the command line
  does not exist or the session did not succeed, and 0 otherwise. Building the auditor
  creates the reports directory, and an exception raised there leaves \<^verbatim>\<open>main\<close>.
\<close>

definition main :: "env \<Rightarrow> auditor \<Rightarrow> world \<Rightarrow> args \<Rightarrow> world \<times> (py_exc + int)" where
  "main e a w ar =
     (if install_deps ar
      then (let ran = subprocess_run e w (pip_cmd e)
            in (fst ran, case snd ran of Raised ex \<Rightarrow> Inl ex | _ \<Rightarrow> Inr 0))
      else
        (case mkdir_error e (reports_dir a) of
           Some ex \<Rightarrow> (w, Inl ex)
         | None \<Rightarrow>
             (case arg_contract ar of
                Some p \<Rightarrow>
                  if \<not> path_exists e p then (w, Inr 1)
                  else
                    (let session =
                           audit_contracts e a w (Some p) (\<not> no_mythril ar) (\<not> no_gas ar)
                     in (fst session,
                         case snd session of
                           Inl ex \<Rightarrow> Inl ex
                         | Inr (AuditDone r) \<Rightarrow> Inr 0
                         | Inr (AuditFailed msg) \<Rightarrow> Inr 1))
              | None \<Rightarrow>
                  (let session =
                         audit_contracts e a w None (\<not> no_mythril ar) (\<not> no_gas ar)
                   in (fst session,
                       case snd session of
                         Inl ex \<Rightarrow> Inl ex
                       | Inr (AuditDone r) \<Rightarrow> Inr 0
                       | Inr (AuditFailed msg) \<Rightarrow> Inr 1)))))"

section \<open>The condensed summary (\<^verbatim>\<open>generate-audit-summary.py\<close>, \<^verbatim>\<open>generate_summary\<close>)\<close>

text \<open>
  An entry of the reports directory: its name, its modification time, and what opening
  it and \<^verbatim>\<open>json.load\<close> give. What the script takes from outside:
  \<^item> \<open>dir_entries\<close>: the entries of a directory, in the order \<^verbatim>\<open>glob\<close> meets them
    (none when the directory does not exist);
  \<^item> \<open>generated\<close>: \<^verbatim>\<open>datetime.now().strftime('%Y-%m-%d %H:%M:%S')\<close>;
  \<^item> \<open>s_exc_str\<close> and \<open>s_repr\<close>: \<^verbatim>\<open>str\<close> of an exception and of a parsed value that is
    not a string.
\<close>

record report_entry =
  fname :: string
  mtime :: int
  loaded :: "py_exc + json"

record summary_env =
  dir_entries :: "string \<Rightarrow> report_entry list"
  generated :: string
  s_exc_str :: "py_exc \<Rightarrow> string"
  s_repr :: "json \<Rightarrow> string"

text \<open>The pictographs of the source's literals, in UTF-8.\<close>

definition chart_sign :: string where
  "chart_sign = [CHR 0xF0, CHR 0x9F, CHR 0x93, CHR 0x8A]"

definition glass_sign :: string where
  "glass_sign = [CHR 0xF0, CHR 0x9F, CHR 0x94, CHR 0x8D]"

definition siren_sign :: string where
  "siren_sign = [CHR 0xF0, CHR 0x9F, CHR 0x9A, CHR 0xA8]"

definition crystal_sign :: string where
  "crystal_sign = [CHR 0xF0, CHR 0x9F, CHR 0x94, CHR 0xAE]"

definition clipboard_sign :: string where
  "clipboard_sign = [CHR 0xF0, CHR 0x9F, CHR 0x93, CHR 0x8B]"

definition warning_sign :: string where
  "warning_sign = [CHR 0xE2, CHR 0x9A, CHR 0xA0, CHR 0xEF, CHR 0xB8, CHR 0x8F]"

definition memo_sign :: string where
  "memo_sign = [CHR 0xF0, CHR 0x9F, CHR 0x93, CHR 0x9D]"

text \<open>
  \<^verbatim>\<open>reports_path.glob(prefix + "*.json")\<close>: the entries whose name starts with the
  prefix and ends with \<^verbatim>\<open>.json\<close>, the two not overlapping.
\<close>

definition glob_reports :: "string \<Rightarrow> report_entry list \<Rightarrow> report_entry list" where
  "glob_reports pre entries =
     filter (\<lambda>r. startswith (fname r) pre \<and> endswith (fname r) ''.json'' \<and>
                 length pre + length ''.json'' \<le> length (fname r)) entries"

text \<open>\<^verbatim>\<open>max(reports, key=os.path.getmtime)\<close>: the first entry of the greatest time.\<close>

fun latest_from :: "report_entry \<Rightarrow> report_entry list \<Rightarrow> report_entry" where
  "latest_from best [] = best"
| "latest_from best (r # rs) = latest_from (if mtime best < mtime r then r else best) rs"

text \<open>
  A comprehension \<^verbatim>\<open>[d for d in detectors if kw in d.get('impact', '').lower()]\<close>.
\<close>

fun select_impact :: "string \<Rightarrow> json list \<Rightarrow> py_exc + json list" where
  "select_impact kw [] = Inr []"
| "select_impact kw (d # ds) =
     (case impact_lower d of
        Inl ex \<Rightarrow> Inl ex
      | Inr impact \<Rightarrow>
          (case select_impact kw ds of
             Inl ex \<Rightarrow> Inl ex
           | Inr rest \<Rightarrow> Inr (if contains kw impact then d # rest else rest)))"

text \<open>
  The four lists of the summary. A detector is left for \<open>informational\<close> when it is in
  none of the other three lists; whether a detector is in one of them depends on its own
  impact text alone, so that Python's \<^verbatim>\<open>==\<close> on dicts and equality of \<open>json\<close> values
  decide \<^verbatim>\<open>d not in high_impact\<close> alike.
\<close>

record categories =
  high_impact :: "json list"
  medium_impact :: "json list"
  low_impact :: "json list"
  informational_list :: "json list"

definition categorize :: "json list \<Rightarrow> py_exc + categories" where
  "categorize detectors =
     (case select_impact ''high'' detectors of
        Inl ex \<Rightarrow> Inl ex
      | Inr hi \<Rightarrow>
          (case select_impact ''medium'' detectors of
             Inl ex \<Rightarrow> Inl ex
           | Inr me \<Rightarrow>
               (case select_impact ''low'' detectors of
                  Inl ex \<Rightarrow> Inl ex
                | Inr lo \<Rightarrow>
                    Inr \<lparr>high_impact = hi, medium_impact = me, low_impact = lo,
                         informational_list =
                           filter (\<lambda>d. d \<notin> set hi \<and> d \<notin> set me \<and> d \<notin> set lo)
                             detectors\<rparr>)))"

text \<open>The two lines of one of the first three high-impact findings.\<close>

definition priority_issue :: "summary_env \<Rightarrow> nat \<times> json \<Rightarrow> out" where
  "priority_issue e numbered =
     (let i = fst numbered; finding = snd numbered in
      seq
        (with_val (py_get finding ''check'' (JStr ''Unknown'')) (\<lambda>v.
           wr (show_nat i @ ''. **'' @ py_str (s_repr e) v @ ''**'')))
        (with_val (py_get finding ''description'' (JStr [])) (\<lambda>d.
           with_val (py_slice 100 d) (\<lambda>short.
             wr (''   - *'' @ py_str (s_repr e) short @ ''...*'')))))"

definition priority_issues :: "summary_env \<Rightarrow> json list \<Rightarrow> out" where
  "priority_issues e hi =
     (if hi \<noteq> []
      then seqs
             [wr [],
              wr (''**'' @ siren_sign @ '' High Priority Issues:**''),
              seqs (map (priority_issue e) (enumerate1 (take 3 hi))),
              if 3 < length hi
              then wr (''   - *and '' @ show_nat (length hi - 3) @ '' more...*'')
              else skip]
      else skip)"

definition slither_lines :: "summary_env \<Rightarrow> categories \<Rightarrow> out" where
  "slither_lines e cats =
     seqs
       [wr (''#### '' @ glass_sign @ '' Slither Analysis''),
        wr (''- **High Impact:** '' @ show_nat (length (high_impact cats))),
        wr (''- **Medium Impact:** '' @ show_nat (length (medium_impact cats))),
        wr (''- **Low Impact:** '' @ show_nat (length (low_impact cats))),
        wr (''- **Informational:** '' @ show_nat (length (informational_list cats))),
        priority_issues e (high_impact cats),
        wr []]"

text \<open>
  The body of the \<^verbatim>\<open>try\<close> on the latest Slither report, up to the point where
  \<^verbatim>\<open>high_impact\<close> is bound: the detectors, or the exception raised before.
\<close>

definition load_detectors :: "report_entry \<Rightarrow> py_exc + json list" where
  "load_detectors latest_slither =
     (case loaded latest_slither of
        Inl ex \<Rightarrow> Inl ex
      | Inr slither_data \<Rightarrow>
          (case get_detectors slither_data of
             Inl ex \<Rightarrow> Inl ex
           | Inr detectors \<Rightarrow> py_iter detectors))"

text \<open>
  The whole \<^verbatim>\<open>try\<close>/\<^verbatim>\<open>except\<close>: the lines appended, the line of the handler among
  them, and the length of \<^verbatim>\<open>high_impact\<close> if that name was bound.
\<close>

definition error_report :: "summary_env \<Rightarrow> py_exc \<Rightarrow> string" where
  "error_report e ex = cross_mark @ '' Error processing Slither report: '' @ s_exc_str e ex"

definition slither_part :: "summary_env \<Rightarrow> report_entry \<Rightarrow> string list \<times> nat option" where
  "slither_part e latest_slither =
     (case load_detectors latest_slither of
        Inl ex \<Rightarrow> ([error_report e ex], None)
      | Inr detectors \<Rightarrow>
          (case select_impact ''high'' detectors of
             Inl ex \<Rightarrow> ([error_report e ex], None)
           | Inr hi \<Rightarrow>
               (case categorize detectors of
                  Inl ex \<Rightarrow> ([error_report e ex], Some (length hi))
                | Inr cats \<Rightarrow>
                    (let written = slither_lines e cats in
                     (case snd written of
                        None \<Rightarrow> (fst written, Some (length hi))
                      | Some ex \<Rightarrow> (fst written @ [error_report e ex], Some (length hi)))))))"

text \<open>
  The issues of one Mythril report; a report that cannot be read or has no countable
  issues is passed over by the bare \<^verbatim>\<open>except\<close>.
\<close>

definition mythril_issue_count :: "report_entry \<Rightarrow> nat" where
  "mythril_issue_count report =
     (case loaded report of
        Inl ex \<Rightarrow> 0
      | Inr mythril_data \<Rightarrow>
          (case py_get mythril_data ''issues'' (JArr []) of
             Inl ex \<Rightarrow> 0
           | Inr issues_v \<Rightarrow> (case py_len issues_v of Inl ex \<Rightarrow> 0 | Inr n \<Rightarrow> n)))"

text \<open>The overall assessment: the three readings of the two counts.\<close>

definition none_line :: string where
  "none_line = check_mark @ '' **No critical security issues detected**''"

definition critical_line :: "nat \<Rightarrow> string" where
  "critical_line high_count =
     siren_sign @ '' **'' @ show_nat high_count @ '' critical issues require immediate attention**''"

definition warning_line :: "nat \<Rightarrow> string" where
  "warning_line mythril_count =
     warning_sign @ '' **'' @ show_nat mythril_count @ '' potential security issues found**''"

definition assessment :: "nat \<Rightarrow> nat \<Rightarrow> string list" where
  "assessment high_count mythril_count =
     (if high_count = 0 \<and> mythril_count = 0 then [none_line]
      else if 0 < high_count then [critical_line high_count]
      else if 0 < mythril_count then [warning_line mythril_count]
      else [])"

definition recommendations :: "nat \<Rightarrow> nat \<Rightarrow> string list" where
  "recommendations high_count mythril_count =
     (if 0 < high_count then
        [''1. **IMMEDIATE:** Address all high-impact findings'',
         ''2. Review and fix security vulnerabilities'']
      else if 0 < mythril_count then
        [''1. Review Mythril findings for potential risks'',
         ''2. Consider manual code review for complex logic'']
      else
        [''1. Continue following security best practices'',
         ''2. Maintain comprehensive test coverage''])"

text \<open>
  The two counts the assessment reads: \<^verbatim>\<open>high_count\<close> is the length of
  \<^verbatim>\<open>high_impact\<close> if that name is bound and 0 otherwise, \<^verbatim>\<open>mythril_count\<close> the issues
  of all Mythril reports.
\<close>

definition slither_reports :: "summary_env \<Rightarrow> string \<Rightarrow> report_entry list" where
  "slither_reports e reports_path = glob_reports ''slither_report_'' (dir_entries e reports_path)"

definition mythril_reports :: "summary_env \<Rightarrow> string \<Rightarrow> report_entry list" where
  "mythril_reports e reports_path = glob_reports ''mythril_report_'' (dir_entries e reports_path)"

definition slither_summary :: "summary_env \<Rightarrow> string \<Rightarrow> string list \<times> nat option" where
  "slither_summary e reports_path =
     (case slither_reports e reports_path of
        [] \<Rightarrow> ([], None)
      | r # rs \<Rightarrow> slither_part e (latest_from r rs))"

definition high_count_of :: "summary_env \<Rightarrow> string \<Rightarrow> nat" where
  "high_count_of e reports_path =
     (case snd (slither_summary e reports_path) of Some n \<Rightarrow> n | None \<Rightarrow> 0)"

definition mythril_count_of :: "summary_env \<Rightarrow> string \<Rightarrow> nat" where
  "mythril_count_of e reports_path =
     sum_list (map mythril_issue_count (mythril_reports e reports_path))"

definition summary_lines :: "summary_env \<Rightarrow> string \<Rightarrow> string list" where
  "summary_lines e reports_path =
     (let high_count = high_count_of e reports_path;
          mythril_count = mythril_count_of e reports_path
      in [''### '' @ chart_sign @ '' Audit Summary'', []] @
         fst (slither_summary e reports_path) @
         (if mythril_reports e reports_path \<noteq> []
          then [''#### '' @ crystal_sign @ '' Mythril Symbolic Analysis'',
                ''- **Security Issues:** '' @ show_nat mythril_count,
                []]
          else []) @
         [''#### '' @ clipboard_sign @ '' Overall Assessment''] @
         assessment high_count mythril_count @
         [[], ''### '' @ memo_sign @ '' Recommendations''] @
         recommendations high_count mythril_count @
         [''3. Run audits regularly, especially before deployments'',
          [],
          ''*Generated: '' @ generated e @ '' UTC*''])"

definition generate_summary :: "summary_env \<Rightarrow> string \<Rightarrow> string" where
  "generate_summary e reports_path = join ''\<newline>'' (summary_lines e reports_path)"

section \<open>Notions used to state the properties\<close>

text \<open>
  A required tool is present when its version check ends with return code 0, and missing
  when the check ends with another return code, exceeds its timeout or finds no such
  program: the three cases in which \<^verbatim>\<open>check_prerequisites\<close> puts it on its list. A
  check that raises any other exception is neither, and \<open>tool_error\<close> is that exception.
\<close>

definition tool_present :: "env \<Rightarrow> string \<Rightarrow> bool" where
  "tool_present e command =
     (case run e [command, ''--version''] of
        Completed rc out err \<Rightarrow> rc = 0
      | _ \<Rightarrow> False)"

definition tool_missing :: "env \<Rightarrow> string \<Rightarrow> bool" where
  "tool_missing e command =
     (case run e [command, ''--version''] of
        Completed rc out err \<Rightarrow> rc \<noteq> 0
      | TimeoutExpired \<Rightarrow> True
      | Raised (FileNotFoundError m) \<Rightarrow> True
      | Raised _ \<Rightarrow> False)"

definition tool_error :: "env \<Rightarrow> string \<Rightarrow> py_exc option" where
  "tool_error e command =
     (case run e [command, ''--version''] of
        Raised (FileNotFoundError m) \<Rightarrow> None
      | Raised ex \<Rightarrow> Some ex
      | _ \<Rightarrow> None)"

text \<open>The pieces of a report that are headings of a finding: those opening with four hashes.\<close>

definition heading_count :: "out \<Rightarrow> nat" where
  "heading_count p = length (filter (\<lambda>s. startswith s ''#### '') (fst p))"

text \<open>
  What a report line shows for a key of a dict: the text of the value bound to it, or
  the default of the \<^verbatim>\<open>get\<close>.
\<close>

definition field_text :: "env \<Rightarrow> (string \<times> json) list \<Rightarrow> string \<Rightarrow> string \<Rightarrow> string" where
  "field_text e kvs key dflt =
     py_str (repr e) (case map_of kvs key of Some v \<Rightarrow> v | None \<Rightarrow> JStr dflt)"

text \<open>The world before the script has done anything.\<close>

definition fresh :: world where
  "fresh = \<lparr>files = Map.empty, calls = []\<rparr>"

text \<open>
  The contracts of a session, the results of its Slither, Mythril and gas runs, what its
  report writes, and the command lines it runs, each as \<^verbatim>\<open>audit_contracts\<close> comes to
  it on the way.
\<close>

definition contract_files_of :: "env \<Rightarrow> auditor \<Rightarrow> path option \<Rightarrow> path list" where
  "contract_files_of e a contract_path =
     (case contract_path of Some p \<Rightarrow> [p] | None \<Rightarrow> find_contract_files e a)"

definition slither_run :: "env \<Rightarrow> auditor \<Rightarrow> path option \<Rightarrow> run_result" where
  "slither_run e a contract_path = snd (run_slither_analysis e a fresh contract_path)"

definition mythril_run :: "env \<Rightarrow> auditor \<Rightarrow> path \<Rightarrow> run_result" where
  "mythril_run e a c = snd (run_mythril_analysis e a fresh c)"

definition gas_run :: "env \<Rightarrow> auditor \<Rightarrow> path \<Rightarrow> run_result" where
  "gas_run e a c = snd (run_gas_analysis e a fresh c)"

definition mythril_runs :: "env \<Rightarrow> auditor \<Rightarrow> path option \<Rightarrow> bool \<Rightarrow> run_result list" where
  "mythril_runs e a contract_path run_mythril =
     (if run_mythril then map (mythril_run e a) (contract_files_of e a contract_path) else [])"

definition gas_runs :: "env \<Rightarrow> auditor \<Rightarrow> path option \<Rightarrow> bool \<Rightarrow> run_result list" where
  "gas_runs e a contract_path run_gas =
     (if run_gas then map (gas_run e a) (contract_files_of e a contract_path) else [])"

definition session_report :: "env \<Rightarrow> auditor \<Rightarrow> path option \<Rightarrow> bool \<Rightarrow> bool \<Rightarrow> out" where
  "session_report e a contract_path run_mythril run_gas =
     report_out e a (slither_run e a contract_path)
       (mythril_runs e a contract_path run_mythril)
       (gas_runs e a contract_path run_gas)"

definition version_checks :: "string list list" where
  "version_checks = map (\<lambda>tool. [snd tool, ''--version'']) tools"

definition session_calls ::
    "env \<Rightarrow> auditor \<Rightarrow> path option \<Rightarrow> bool \<Rightarrow> bool \<Rightarrow> string list list" where
  "session_calls e a contract_path run_mythril run_gas =
     version_checks @ [slither_cmd a contract_path] @
     (if run_mythril then map (mythril_cmd a) (contract_files_of e a contract_path) else []) @
     (if run_gas then map gas_cmd (contract_files_of e a contract_path) else [])"

text \<open>
  The files that lie under a directory, at any depth: its entries that are not
  directories.
\<close>

fun files_under :: "path \<Rightarrow> fs_node \<Rightarrow> path list" where
  "files_under d (File n) = [d @ [n]]"
| "files_under d (Dir n entries) = concat (map (files_under (d @ [n])) entries)"

definition all_files :: "path \<Rightarrow> fs_node list \<Rightarrow> path list" where
  "all_files d entries = concat (map (files_under d) entries)"







section \<open>Sample inputs\<close>

text \<open>Four findings: two that mention high, one medium, and one without an impact.\<close>

definition sample_findings :: "json list" where
  "sample_findings =
     [JObj [(''impact'', JStr ''High'')],
      JObj [(''check'', JStr ''reentrancy''), (''impact'', JStr ''Medium'')],
      JObj [(''check'', JStr ''pragma'')],
      JObj [(''impact'', JStr ''Low, was HIGH'')]]"

text \<open>An environment in which nothing is there and no command exists.\<close>

definition bare_env :: env where
  "bare_env =
     \<lparr>listdir = (\<lambda>d. []),
      path_exists = (\<lambda>p. False),
      run = (\<lambda>cmd. Raised (FileNotFoundError ''No such file or directory'')),
      output_after = (\<lambda>cmd. None),
      output_at_report = (\<lambda>f. None),
      now = (\<lambda>f. ''2024-01-01 00:00:00.000000''),
      exc_str = (\<lambda>ex. ''error''),
      repr = (\<lambda>v. ''?''),
      open_error = (\<lambda>f. None),
      mkdir_error = (\<lambda>d. None),
      executable = ''/usr/bin/python3''\<rparr>"

definition sample_auditor :: auditor where
  "sample_auditor =
     \<lparr>contracts_dir = [''smartcontract'', ''contracts''],
      reports_dir = [''reports'', ''audit''],
      timestamp = ''20240101_000000''\<rparr>"

text \<open>A contracts directory with a vendored tree, a test fixture and two contracts.\<close>

definition sample_tree :: "fs_node list" where
  "sample_tree =
     [File ''TokenB.sol'',
      File ''TestHelper.sol'',
      File ''README.md'',
      Dir ''node_modules'' [Dir ''oz'' [File ''ERC20.sol'']],
      Dir ''core'' [File ''TokenA.sol'']]"

text \<open>
  A reports directory with one Slither report that holds exactly one finding, of the
  given severity text, and no Mythril report.
\<close>

definition one_finding :: "string \<Rightarrow> json" where
  "one_finding severity =
     JObj [(''check'', JStr ''reentrancy-eth''),
           (''impact'', JStr severity),
           (''description'', JStr ''Reentrancy in withdraw'')]"

definition slither_document :: "json list \<Rightarrow> json" where
  "slither_document detectors = JObj [(''results'', JObj [(''detectors'', JArr detectors)])]"

definition one_finding_session :: "string \<Rightarrow> summary_env" where
  "one_finding_session severity =
     \<lparr>dir_entries =
        (\<lambda>d. [\<lparr>fname = ''slither_report_20240101_000000.json'', mtime = 1704067200,
                 loaded = Inr (slither_document [one_finding severity])\<rparr>]),
      generated = ''2024-01-01 00:00:00'',
      s_exc_str = (\<lambda>ex. ''error''),
      s_repr = (\<lambda>v. ''?'')\<rparr>"

text \<open>
  Environments for the session: one in which every command ends with return code 0 and
  leaves no output file, one in which \<^verbatim>\<open>solc\<close> alone cannot be found, and one in
  which every analysis exceeds its timeout while the three version checks succeed.
\<close>

definition sample_repr :: "json \<Rightarrow> string" where
  "sample_repr v =
     (case v of
        JNull \<Rightarrow> ''None''
      | JBool b \<Rightarrow> (if b then ''True'' else ''False'')
      | JNum n \<Rightarrow> (if 0 \<le> n then show_nat (nat n) else ''-'' @ show_nat (nat (- n)))
      | _ \<Rightarrow> ''?'')"

definition quiet_env :: env where
  "quiet_env =
     \<lparr>listdir = (\<lambda>d. sample_tree),
      path_exists = (\<lambda>p. True),
      run = (\<lambda>cmd. Completed 0 ''ok'' []),
      output_after = (\<lambda>cmd. None),
      output_at_report = (\<lambda>f. None),
      now = (\<lambda>f. ''2024-01-01 00:00:00.000000''),
      exc_str = (\<lambda>ex. ''error''),
      repr = sample_repr,
      open_error = (\<lambda>f. None),
      mkdir_error = (\<lambda>d. None),
      executable = ''/usr/bin/python3''\<rparr>"

definition solc_missing_env :: env where
  "solc_missing_env =
     quiet_env\<lparr>run := (\<lambda>cmd. if cmd = [''solc'', ''--version'']
                              then Raised (FileNotFoundError ''solc'')
                              else Completed 0 ''ok'' [])\<rparr>"


definition sample_args :: args where
  "sample_args = \<lparr>arg_contract = None, no_mythril = False, no_gas = False, install_deps = False\<rparr>"


text \<open>
  A Slither result whose output file, at the time of the report, holds twelve findings;
  and a Mythril issue that carries a confidence.
\<close>

definition twelve_env :: env where
  "twelve_env =
     quiet_env\<lparr>output_at_report :=
       (\<lambda>f. Some (Inr (slither_document (replicate 12 (one_finding ''High'')))))\<rparr>"

definition slither_ok :: run_result where
  "slither_ok =
     completed sample_auditor 0 ''ok'' []
       (Some ''reports/audit/slither_report_20240101_000000.json'') None"

definition sample_issue :: json where
  "sample_issue =
     JObj [(''title'', JStr ''Integer Overflow''),
           (''severity'', JStr ''High''),
           (''confidence'', JStr ''Certain''),
           (''description'', JStr ''The arithmetic operation can overflow.''),
           (''locations'',
            JArr [JObj [(''start_line'', JNum 42), (''source_map'', JStr ''TokenA.sol'')]])]"

text \<open>A Slither finding with four elements, each with a source mapping.\<close>

definition sample_element :: "string \<Rightarrow> json" where
  "sample_element file = JObj [(''source_mapping'', JObj [(''filename'', JStr file)])]"

definition sample_elements :: "json list" where
  "sample_elements =
     [sample_element ''contracts/A.sol'', sample_element ''contracts/B.sol'',
      sample_element ''contracts/C.sol'', sample_element ''contracts/D.sol'']"

definition sample_detector :: json where
  "sample_detector =
     JObj [(''check'', JStr ''reentrancy-eth''), (''elements'', JArr sample_elements)]"

text \<open>
  An environment in which every command ends with return code 0 and leaves an output
  file that is not JSON.
\<close>

definition malformed_env :: env where
  "malformed_env =
     quiet_env
       \<lparr>output_after :=
          (\<lambda>cmd. Some (Inl (JSONDecodeError ''Expecting value: line 1 column 1 (char 0)''))),
        exc_str := (\<lambda>ex. case ex of JSONDecodeError m \<Rightarrow> m | _ \<Rightarrow> ''error'')\<rparr>"

text \<open>A reports directory whose one Slither report and one Mythril report are not JSON.\<close>

definition malformed_session :: summary_env where
  "malformed_session =
     \<lparr>dir_entries =
        (\<lambda>d. [\<lparr>fname = ''slither_report_20240101_000000.json'', mtime = 1704067200,
                 loaded = Inl (JSONDecodeError ''Expecting value: line 1 column 1 (char 0)'')\<rparr>,
               \<lparr>fname = ''mythril_report_TokenA_20240101_000000.json'', mtime = 1704067201,
                 loaded = Inl (JSONDecodeError ''Expecting value: line 1 column 1 (char 0)'')\<rparr>]),
      generated = ''2024-01-01 00:00:00'',
      s_exc_str = (\<lambda>ex. case ex of JSONDecodeError m \<Rightarrow> m | _ \<Rightarrow> ''error''),
      s_repr = (\<lambda>v. ''?'')\<rparr>"

text \<open>
  A contracts directory that holds a directory named like a contract, with a file in it,
  beside a contract and a test fixture.
\<close>

definition named_dir_tree :: "fs_node list" where
  "named_dir_tree =
     [Dir ''Token.sol'' [File ''README.md''], File ''TokenA.sol'', File ''TestHelper.sol'']"

definition named_dir_env :: env where
  "named_dir_env = quiet_env\<lparr>listdir := (\<lambda>d. named_dir_tree)\<rparr>"



text \<open>
  A Slither finding whose second element has a source mapping without a file name.
\<close>

definition unmapped_detector :: json where
  "unmapped_detector =
     JObj [(''check'', JStr ''reentrancy-eth''),
           (''elements'',
            JArr [sample_element ''contracts/A.sol'',
                  JObj [(''source_mapping'', JObj [(''lines'', JArr [JNum 1])])],
                  sample_element ''contracts/C.sol''])]"

section \<open>Properties of the encoding\<close>

lemma of_char_byte: "0 \<le> (of_char c :: int) \<and> (of_char c :: int) < 256"
proof -
  have "(of_char c :: nat) mod 256 < 256" by simp
  then have "(of_char c :: nat) < 256" by simp
  then have "int (of_char c) < 256" by simp
  moreover have "int (of_char c) = (of_char c :: int)" by (simp add: of_char_def)
  ultimately show ?thesis by simp
qed






lemma scalar_at_ascii: "0 \<le> b \<Longrightarrow> b < 128 \<Longrightarrow> scalar_at b bs = Some (b, 1)"
  by (simp add: scalar_at_def width_def trails_def second_ok_def lead_bits_def)

lemma code_units_ascii: "\<forall>b\<in>set bs. 0 \<le> b \<and> b < 128 \<Longrightarrow> code_units bs = bs"
  by (induction bs) (simp_all add: scalar_at_ascii)

lemma encodable_ascii:
  assumes "\<forall>c\<in>set s. (of_char c :: int) < 128"
  shows "encodable s"
proof -
  have "code_units (map of_char s) = map of_char s"
    using assms by (intro code_units_ascii) (simp add: of_char_byte)
  with assms show ?thesis
    by (auto simp add: encodable_def ord_list_def list_all_iff)
qed

lemma digit_ascii:
  assumes "d < 10"
  shows "(of_char (digit d) :: int) < 128"
proof -
  have "digit d \<in> set ''0123456789''"
    unfolding digit_def using assms by (intro nth_mem) simp
  moreover have "\<forall>c\<in>set ''0123456789''. (of_char c :: int) < 128"
    by simp
  ultimately show ?thesis by blast
qed

lemma show_nat_ascii: "\<forall>c\<in>set (show_nat n). (of_char c :: int) < 128"
proof (induction n rule: show_nat.induct)
  case (1 n)
  show ?case
  proof (cases "n < 10")
    case True
    then show ?thesis
      by (simp add: show_nat.simps [of n] digit_ascii)
  next
    case False
    with 1 have "\<forall>c\<in>set (show_nat (n div 10)). (of_char c :: int) < 128" by simp
    with False show ?thesis
      by (simp add: show_nat.simps [of n] digit_ascii)
  qed
qed

lemma encodable_show_nat: "encodable (show_nat n)"
  by (rule encodable_ascii) (rule show_nat_ascii)

section \<open>Properties of impact analysis\<close>

lemma count_impact_total:
  "high (count_impact t imp) + medium (count_impact t imp) + low (count_impact t imp)
     + informational (count_impact t imp)
   = Suc (high imp + medium imp + low imp + informational imp)"
  by (simp add: count_impact_def)

lemma count_impact_buckets:
  "high (count_impact t imp) = high imp + (if bucket_of t = 0 then 1 else 0)"
  "medium (count_impact t imp) = medium imp + (if bucket_of t = 1 then 1 else 0)"
  "low (count_impact t imp) = low imp + (if bucket_of t = 2 then 1 else 0)"
  "informational (count_impact t imp) = informational imp + (if bucket_of t = 3 then 1 else 0)"
  by (simp_all add: count_impact_def bucket_of_def)

lemma bucket_of_range: "bucket_of t < 4"
  by (simp add: bucket_of_def)

lemma analyze_loop_returns:
  "\<forall>r\<in>set rs. \<exists>t. impact_lower r = Inr t \<Longrightarrow> \<exists>c. analyze_loop rs imp = Inr c"
  by (induction rs arbitrary: imp) auto

lemma analyze_loop_counts:
  "analyze_loop rs imp = Inr c \<Longrightarrow>
     high c = high imp + in_bucket 0 rs \<and>
     medium c = medium imp + in_bucket 1 rs \<and>
     low c = low imp + in_bucket 2 rs \<and>
     informational c = informational imp + in_bucket 3 rs"
proof (induction rs arbitrary: imp)
  case Nil
  then show ?case by (simp add: in_bucket_def)
next
  case (Cons r rs)
  from Cons.prems obtain t where t: "impact_lower r = Inr t"
    and rest: "analyze_loop rs (count_impact t imp) = Inr c"
    by (auto split: sum.splits)
  from t have lowered: "impact_text r = t" by (simp add: impact_text_def)
  from Cons.IH [OF rest] show ?case
    by (simp add: count_impact_buckets in_bucket_def lowered)
qed

lemma in_bucket_partition:
  "in_bucket 0 rs + in_bucket 1 rs + in_bucket 2 rs + in_bucket 3 rs = length rs"
proof (induction rs)
  case Nil
  show ?case by (simp add: in_bucket_def)
next
  case (Cons r rs)
  have "bucket_of (impact_text r) < 4" by (rule bucket_of_range)
  then consider "bucket_of (impact_text r) = 0" | "bucket_of (impact_text r) = 1"
    | "bucket_of (impact_text r) = 2" | "bucket_of (impact_text r) = 3"
    by linarith
  then show ?case using Cons.IH by cases (simp_all add: in_bucket_def)
qed

text \<open>
  C10. On a list of findings whose impact is a text or absent, impact analysis returns
  counters; whenever it returns, the counter of a bucket is the number of findings whose
  lowered impact text falls in that bucket under the chain high, then medium, then low,
  then informational, and the four counters add up to the length of the list.
\<close>

theorem analyze_impacts_partition:
  "((\<forall>r\<in>set rs. \<exists>t. impact_lower r = Inr t) \<longrightarrow> (\<exists>c. analyze_impacts (JArr rs) = Inr c)) \<and>
   (analyze_impacts (JArr rs) = Inr c \<longrightarrow>
      high c = in_bucket 0 rs \<and> medium c = in_bucket 1 rs \<and>
      low c = in_bucket 2 rs \<and> informational c = in_bucket 3 rs \<and>
      high c + medium c + low c + informational c = length rs)"
proof (intro conjI impI)
  assume "\<forall>r\<in>set rs. \<exists>t. impact_lower r = Inr t"
  then show "\<exists>c. analyze_impacts (JArr rs) = Inr c"
    using analyze_loop_returns [of rs no_impacts]
    by (simp add: analyze_impacts_def py_iter_def)
next
  assume "analyze_impacts (JArr rs) = Inr c"
  then have loop: "analyze_loop rs no_impacts = Inr c"
    by (simp add: analyze_impacts_def py_iter_def)
  from analyze_loop_counts [OF loop]
  have c: "high c = in_bucket 0 rs" "medium c = in_bucket 1 rs"
    "low c = in_bucket 2 rs" "informational c = in_bucket 3 rs"
    by (simp_all add: no_impacts_def)
  from c show "high c = in_bucket 0 rs" by simp
  from c show "medium c = in_bucket 1 rs" by simp
  from c show "low c = in_bucket 2 rs" by simp
  from c show "informational c = in_bucket 3 rs" by simp
  from c in_bucket_partition [of rs]
  show "high c + medium c + low c + informational c = length rs" by simp
qed

theorem analyze_impacts_partition_witness:
  "analyze_impacts (JArr sample_findings)
     = Inr \<lparr>high = 2, medium = 1, low = 0, informational = 1\<rparr> \<and>
   in_bucket 0 sample_findings = 2 \<and> in_bucket 1 sample_findings = 1 \<and>
   in_bucket 2 sample_findings = 0 \<and> in_bucket 3 sample_findings = 1 \<and>
   length sample_findings = 4"
proof -
  have counted: "analyze_impacts (JArr sample_findings)
     = Inr \<lparr>high = 2, medium = 1, low = 0, informational = 1\<rparr>"
    by code_simp
  note counts =
    analyze_impacts_partition
      [of sample_findings "\<lparr>high = 2, medium = 1, low = 0, informational = 1\<rparr>",
       THEN conjunct2, THEN mp, OF counted]
  have b0: "in_bucket 0 sample_findings = 2"
    using counts [THEN conjunct1, symmetric] by simp
  have b1: "in_bucket 1 sample_findings = 1"
    using counts [THEN conjunct2, THEN conjunct1, symmetric] by simp
  have b2: "in_bucket 2 sample_findings = 0"
    using counts [THEN conjunct2, THEN conjunct2, THEN conjunct1, symmetric] by simp
  have b3: "in_bucket 3 sample_findings = 1"
    using counts [THEN conjunct2, THEN conjunct2, THEN conjunct2, THEN conjunct1, symmetric]
    by simp
  have len: "length sample_findings = 4"
    using counts [THEN conjunct2, THEN conjunct2, THEN conjunct2, THEN conjunct2, symmetric]
    by simp
  from counted b0 b1 b2 b3 len show ?thesis by blast
qed

section \<open>Properties of contract discovery\<close>

text \<open>
  C4 fails in the code. On a directory that holds the files \<open>TokenA.sol\<close> and
  \<open>TestHelper.sol\<close> discovery returns \<open>TokenA.sol\<close> alone, as the claim has it. But
  what it returns is not only files: when the contracts directory holds a directory
  whose name ends in \<open>.sol\<close>, that directory is returned among the contracts, although
  it is none of the files under the contracts directory.
\<close>

theorem discovery_returns_directory:
  "find_contract_files
       (quiet_env\<lparr>listdir := (\<lambda>d. [File ''TokenA.sol'', File ''TestHelper.sol''])\<rparr>)
       sample_auditor
     = [[''smartcontract'', ''contracts'', ''TokenA.sol'']] \<and>
   listdir named_dir_env (contracts_dir sample_auditor)
     = [Dir ''Token.sol'' [File ''README.md''], File ''TokenA.sol'', File ''TestHelper.sol''] \<and>
   all_files (contracts_dir sample_auditor) (listdir named_dir_env (contracts_dir sample_auditor))
     = [[''smartcontract'', ''contracts'', ''Token.sol'', ''README.md''],
        [''smartcontract'', ''contracts'', ''TokenA.sol''],
        [''smartcontract'', ''contracts'', ''TestHelper.sol'']] \<and>
   find_contract_files named_dir_env sample_auditor
     = [[''smartcontract'', ''contracts'', ''Token.sol''],
        [''smartcontract'', ''contracts'', ''TokenA.sol'']]"
  by code_simp

section \<open>Properties of the condensed summary\<close>






















text \<open>
  C2 holds of \<open>analyze_impacts\<close>, whose chain gives every finding one bucket, and fails
  in the summary, whose three lists are filled independently: a finding whose impact
  reads \<open>High-Medium\<close> is counted once, as high, by the first, and twice, as high and
  as medium, by the second.
\<close>

theorem summary_counts_finding_twice:
  "analyze_impacts (JArr [one_finding ''High-Medium''])
     = Inr \<lparr>high = 1, medium = 0, low = 0, informational = 0\<rparr> \<and>
   categorize [one_finding ''High-Medium'']
     = Inr \<lparr>high_impact = [one_finding ''High-Medium''],
            medium_impact = [one_finding ''High-Medium''],
            low_impact = [], informational_list = []\<rparr> \<and>
   take 4 (drop 3 (summary_lines (one_finding_session ''High-Medium'') ''reports/audit''))
     = [''- **High Impact:** 1'', ''- **Medium Impact:** 1'',
        ''- **Low Impact:** 0'', ''- **Informational:** 0'']"
  by code_simp

section \<open>Properties of the session's prerequisites\<close>

lemma tool_missing_iff: "tool_missing e c = (\<not> tool_present e c \<and> tool_error e c = None)"
  by (simp add: tool_missing_def tool_present_def tool_error_def
      split: proc_outcome.splits py_exc.splits)

lemma missing_tools_step:
  "missing_tools e w ((n, c) # rest) =
     (case tool_error e c of
        Some ex \<Rightarrow> (w\<lparr>calls := calls w @ [[c, ''--version'']]\<rparr>, Inl ex)
      | None \<Rightarrow>
          (fst (missing_tools e (w\<lparr>calls := calls w @ [[c, ''--version'']]\<rparr>) rest),
           case snd (missing_tools e (w\<lparr>calls := calls w @ [[c, ''--version'']]\<rparr>) rest) of
             Inl ex \<Rightarrow> Inl ex
           | Inr ms \<Rightarrow> Inr (if tool_present e c then ms else n # ms)))"
  by (auto simp add: subprocess_run_def tool_error_def tool_present_def Let_def
      split: proc_outcome.splits py_exc.splits sum.splits)

lemma check_prerequisites_checked:
  assumes "tool_error e ''slither'' = None" and "tool_error e ''myth'' = None"
    and "tool_error e ''solc'' = None"
  shows "check_prerequisites e w =
     (w\<lparr>calls := calls w @ version_checks\<rparr>,
      Inr (tool_present e ''slither'' \<and> tool_present e ''myth'' \<and> tool_present e ''solc''))"
  using assms
  by (simp add: check_prerequisites_def tools_def version_checks_def missing_tools_step
      del: missing_tools.simps(2))

lemma check_prerequisites_raised:
  "tool_error e ''slither'' = Some ex \<Longrightarrow>
     check_prerequisites e w = (w\<lparr>calls := calls w @ take 1 version_checks\<rparr>, Inl ex)"
  "tool_error e ''slither'' = None \<Longrightarrow> tool_error e ''myth'' = Some ex \<Longrightarrow>
     check_prerequisites e w = (w\<lparr>calls := calls w @ take 2 version_checks\<rparr>, Inl ex)"
  "tool_error e ''slither'' = None \<Longrightarrow> tool_error e ''myth'' = None \<Longrightarrow>
   tool_error e ''solc'' = Some ex \<Longrightarrow>
     check_prerequisites e w = (w\<lparr>calls := calls w @ version_checks\<rparr>, Inl ex)"
  by (simp_all add: check_prerequisites_def tools_def version_checks_def missing_tools_step
      del: missing_tools.simps(2))

lemma check_prerequisites_true:
  "(snd (check_prerequisites e w) = Inr True) =
     (tool_present e ''slither'' \<and> tool_present e ''myth'' \<and> tool_present e ''solc'')"
proof -
  have present: "tool_present e c \<Longrightarrow> tool_error e c = None" for c
    by (simp add: tool_present_def tool_error_def split: proc_outcome.splits py_exc.splits)
  show ?thesis
  proof
    assume ok: "snd (check_prerequisites e w) = Inr True"
    show "tool_present e ''slither'' \<and> tool_present e ''myth'' \<and> tool_present e ''solc''"
    proof (cases "tool_error e ''slither''")
      case (Some ex)
      from check_prerequisites_raised(1) [OF this] ok show ?thesis by simp
    next
      case s: None
      show ?thesis
      proof (cases "tool_error e ''myth''")
        case (Some ex)
        from check_prerequisites_raised(2) [OF s this] ok show ?thesis by simp
      next
        case m: None
        show ?thesis
        proof (cases "tool_error e ''solc''")
          case (Some ex)
          from check_prerequisites_raised(3) [OF s m this] ok show ?thesis by simp
        next
          case None
          from check_prerequisites_checked [OF s m None] ok show ?thesis by simp
        qed
      qed
    qed
  next
    assume all: "tool_present e ''slither'' \<and> tool_present e ''myth'' \<and> tool_present e ''solc''"
    then have "tool_error e ''slither'' = None" "tool_error e ''myth'' = None"
      "tool_error e ''solc'' = None"
      by (simp_all add: present)
    from check_prerequisites_checked [OF this] all
    show "snd (check_prerequisites e w) = Inr True" by simp
  qed
qed

lemma audit_without_prerequisites:
  "check_prerequisites e w = (w', Inr False) \<Longrightarrow>
     audit_contracts e a w cp rm rg = (w', Inr (AuditFailed ''prerequisites_failed''))"
  by (simp add: audit_contracts_def)

lemma audit_prerequisites_raised:
  "check_prerequisites e w = (w', Inl ex) \<Longrightarrow> audit_contracts e a w cp rm rg = (w', Inl ex)"
  by (simp add: audit_contracts_def)

lemma main_without_prerequisites:
  assumes "\<And>cp. snd (audit_contracts e a w cp (\<not> no_mythril ar) (\<not> no_gas ar))
              = Inr (AuditFailed ''prerequisites_failed'')"
    and "\<not> install_deps ar" and "mkdir_error e (reports_dir a) = None"
  shows "snd (main e a w ar) = Inr 1"
  using assms by (simp add: main_def Let_def split: option.splits)

text \<open>
  C8, as the code has it. The check of the prerequisites succeeds exactly when all three
  required tools (\<open>slither\<close>, \<open>myth\<close>, \<open>solc\<close>) are present. When at least one of
  them is missing, whether or not the others are present, and no version check raises an
  exception other than those of a missing tool, the session returns the error
  \<open>prerequisites_failed\<close> having run the three version checks and nothing else, and
  having written no file; the exit status is then 1, if the dependencies were not to be
  installed and the reports directory could be made. When a version check raises another
  exception, the session ends with the exception of the first check that does, having
  run the version checks up to that one and nothing else.
\<close>

theorem prerequisites_all_required:
  "((snd (check_prerequisites e w) = Inr True) =
      (tool_present e ''slither'' \<and> tool_present e ''myth'' \<and> tool_present e ''solc'')) \<and>
   ((tool_missing e ''slither'' \<or> tool_missing e ''myth'' \<or> tool_missing e ''solc'') \<and>
    tool_error e ''slither'' = None \<and> tool_error e ''myth'' = None \<and>
    tool_error e ''solc'' = None
      \<longrightarrow> audit_contracts e a w cp rm rg
            = (w\<lparr>calls := calls w @ version_checks\<rparr>,
               Inr (AuditFailed ''prerequisites_failed'')) \<and>
          (\<not> install_deps ar \<and> mkdir_error e (reports_dir a) = None
             \<longrightarrow> snd (main e a w ar) = Inr 1)) \<and>
   (tool_error e ''slither'' = Some ex
      \<longrightarrow> audit_contracts e a w cp rm rg
            = (w\<lparr>calls := calls w @ take 1 version_checks\<rparr>, Inl ex)) \<and>
   (tool_error e ''slither'' = None \<and> tool_error e ''myth'' = Some ex
      \<longrightarrow> audit_contracts e a w cp rm rg
            = (w\<lparr>calls := calls w @ take 2 version_checks\<rparr>, Inl ex)) \<and>
   (tool_error e ''slither'' = None \<and> tool_error e ''myth'' = None \<and>
    tool_error e ''solc'' = Some ex
      \<longrightarrow> audit_contracts e a w cp rm rg
            = (w\<lparr>calls := calls w @ version_checks\<rparr>, Inl ex)) \<and>
   version_checks = [[''slither'', ''--version''], [''myth'', ''--version''],
                     [''solc'', ''--version'']]"
proof (intro conjI impI)
  show "(snd (check_prerequisites e w) = Inr True) =
      (tool_present e ''slither'' \<and> tool_present e ''myth'' \<and> tool_present e ''solc'')"
    by (rule check_prerequisites_true)
  show "version_checks = [[''slither'', ''--version''], [''myth'', ''--version''],
                     [''solc'', ''--version'']]"
    by (simp add: version_checks_def tools_def)
next
  assume "tool_error e ''slither'' = Some ex"
  from check_prerequisites_raised(1) [OF this]
  show "audit_contracts e a w cp rm rg
      = (w\<lparr>calls := calls w @ take 1 version_checks\<rparr>, Inl ex)"
    by (rule audit_prerequisites_raised)
next
  assume "tool_error e ''slither'' = None \<and> tool_error e ''myth'' = Some ex"
  then have "tool_error e ''slither'' = None" "tool_error e ''myth'' = Some ex"
    by simp_all
  from check_prerequisites_raised(2) [OF this]
  show "audit_contracts e a w cp rm rg
      = (w\<lparr>calls := calls w @ take 2 version_checks\<rparr>, Inl ex)"
    by (rule audit_prerequisites_raised)
next
  assume "tool_error e ''slither'' = None \<and> tool_error e ''myth'' = None \<and>
    tool_error e ''solc'' = Some ex"
  then have "tool_error e ''slither'' = None" "tool_error e ''myth'' = None"
    "tool_error e ''solc'' = Some ex"
    by simp_all
  from check_prerequisites_raised(3) [OF this]
  show "audit_contracts e a w cp rm rg
      = (w\<lparr>calls := calls w @ version_checks\<rparr>, Inl ex)"
    by (rule audit_prerequisites_raised)
next
  assume missing: "(tool_missing e ''slither'' \<or> tool_missing e ''myth'' \<or>
      tool_missing e ''solc'') \<and>
    tool_error e ''slither'' = None \<and> tool_error e ''myth'' = None \<and>
    tool_error e ''solc'' = None"
  then have none: "tool_error e ''slither'' = None" "tool_error e ''myth'' = None"
    "tool_error e ''solc'' = None"
    by simp_all
  from missing have "\<not> (tool_present e ''slither'' \<and> tool_present e ''myth'' \<and>
      tool_present e ''solc'')"
    by (auto simp add: tool_missing_iff)
  with check_prerequisites_checked [OF none, of w]
  have "check_prerequisites e w = (w\<lparr>calls := calls w @ version_checks\<rparr>, Inr False)"
    by simp
  then show stopped: "audit_contracts e a w cp rm rg
      = (w\<lparr>calls := calls w @ version_checks\<rparr>, Inr (AuditFailed ''prerequisites_failed''))"
    for cp rm rg
    by (rule audit_without_prerequisites)
  assume "\<not> install_deps ar \<and> mkdir_error e (reports_dir a) = None"
  then show "snd (main e a w ar) = Inr 1"
    by (intro main_without_prerequisites) (simp_all add: stopped)
qed

theorem prerequisites_all_required_witness:
  "tool_present solc_missing_env ''slither'' \<and>
   tool_present solc_missing_env ''myth'' \<and>
   tool_missing solc_missing_env ''solc'' \<and>
   audit_contracts solc_missing_env sample_auditor fresh None True True
     = (fresh\<lparr>calls := calls fresh @ version_checks\<rparr>,
        Inr (AuditFailed ''prerequisites_failed'')) \<and>
   snd (main solc_missing_env sample_auditor fresh sample_args) = Inr 1"
proof -
  have s: "tool_present solc_missing_env ''slither''" by code_simp
  have m: "tool_present solc_missing_env ''myth''" by code_simp
  have c: "tool_missing solc_missing_env ''solc''" by code_simp
  have none: "tool_error solc_missing_env ''slither'' = None"
    "tool_error solc_missing_env ''myth'' = None" "tool_error solc_missing_env ''solc'' = None"
    by code_simp+
  have ar: "\<not> install_deps sample_args \<and>
    mkdir_error solc_missing_env (reports_dir sample_auditor) = None"
    by code_simp
  from c none have pre:
    "(tool_missing solc_missing_env ''slither'' \<or> tool_missing solc_missing_env ''myth'' \<or>
        tool_missing solc_missing_env ''solc'') \<and>
     tool_error solc_missing_env ''slither'' = None \<and>
     tool_error solc_missing_env ''myth'' = None \<and>
     tool_error solc_missing_env ''solc'' = None"
    by blast
  note fatal =
    prerequisites_all_required
      [where e = solc_missing_env and a = sample_auditor and w = fresh and cp = None
         and rm = True and rg = True and ar = sample_args,
       THEN conjunct2, THEN conjunct1, THEN mp, OF pre]
  from fatal ar have "snd (main solc_missing_env sample_auditor fresh sample_args) = Inr 1"
    by blast
  with s m c fatal show ?thesis by blast
qed

text \<open>
  The claim as stated fails: with \<open>slither\<close> and \<open>myth\<close> present and \<open>solc\<close> alone
  missing, the session is over before any analysis and the exit status is 1.
\<close>

theorem one_missing_tool_counterexample:
  "tool_present solc_missing_env ''slither'' \<and>
   tool_present solc_missing_env ''myth'' \<and>
   snd (audit_contracts solc_missing_env sample_auditor fresh None True True)
     = Inr (AuditFailed ''prerequisites_failed'') \<and>
   calls (fst (audit_contracts solc_missing_env sample_auditor fresh None True True))
     = [[''slither'', ''--version''], [''myth'', ''--version''], [''solc'', ''--version'']] \<and>
   snd (main solc_missing_env sample_auditor fresh sample_args) = Inr 1"
  by code_simp

section \<open>Properties of the tool runs\<close>


lemma seq_skip_left: "seq skip q = q"
  by (simp add: seq_def skip_def)

lemma seq_throw: "seq (throw ex) q = throw ex"
  by (simp add: seq_def throw_def)



















section \<open>Properties of the comprehensive report\<close>

lemma heading_count_wr: "heading_count (wr s) = (if startswith s ''#### '' then 1 else 0)"
  by (simp add: heading_count_def wr_def)

lemma heading_count_skip: "heading_count skip = 0"
  by (simp add: heading_count_def skip_def)

lemma heading_count_throw: "heading_count (throw ex) = 0"
  by (simp add: heading_count_def throw_def)

lemma heading_count_fwrite: "heading_count (fwrite s) \<le> 1"
  by (simp add: fwrite_def heading_count_wr heading_count_throw)

lemma heading_count_fwrite_plain:
  "\<not> startswith s ''#### '' \<Longrightarrow> heading_count (fwrite s) = 0"
  by (simp add: fwrite_def heading_count_wr heading_count_throw)

lemma heading_count_seq:
  "heading_count p \<le> m \<Longrightarrow> heading_count q \<le> n \<Longrightarrow> heading_count (seq p q) \<le> m + n"
  by (simp add: heading_count_def seq_def split: option.splits)

lemma heading_count_seqs:
  "list_all2 (\<lambda>p n. heading_count p \<le> n) ps ns \<Longrightarrow> heading_count (seqs ps) \<le> sum_list ns"
proof (induction ps ns rule: list_all2_induct)
  case Nil
  show ?case by (simp add: heading_count_skip)
next
  case (Cons p ps n ns)
  from heading_count_seq [OF Cons.hyps(1) Cons.IH] show ?case by simp
qed

lemma heading_count_plain:
  assumes "\<forall>p\<in>set ps. heading_count p = 0"
  shows "heading_count (seqs ps) = 0"
proof -
  from assms have "list_all2 (\<lambda>p n. heading_count p \<le> n) ps (replicate (length ps) 0)"
    by (simp add: list_all2_conv_all_nth)
  from heading_count_seqs [OF this] show ?thesis by (simp add: sum_list_replicate)
qed

lemma heading_count_with_val:
  "(\<And>x. v = Inr x \<Longrightarrow> heading_count (f x) \<le> n) \<Longrightarrow> heading_count (with_val v f) \<le> n"
  by (cases v) (simp_all add: with_val_def heading_count_throw)

lemma heading_count_map:
  "(\<And>x. x \<in> set xs \<Longrightarrow> heading_count (f x) \<le> n)
     \<Longrightarrow> heading_count (seqs (map f xs)) \<le> n * length xs"
proof (induction xs)
  case Nil
  show ?case by (simp add: heading_count_skip)
next
  case (Cons x xs)
  have "heading_count (seq (f x) (seqs (map f xs))) \<le> n + n * length xs"
    by (rule heading_count_seq) (simp_all add: Cons)
  then show ?case by simp
qed

lemma field_line_dict:
  "field_line e label (JObj kvs) key dflt ending
     = fwrite (label @ field_text e kvs key dflt @ ending)"
  by (simp add: field_line_def py_get_def with_val_def field_text_def split: option.splits)

lemma field_line_heading: "heading_count (field_line e label x key dflt ending) \<le> 1"
  unfolding field_line_def
  by (rule heading_count_with_val) (rule heading_count_fwrite)

lemma startswith_long:
  "length p \<le> length label \<Longrightarrow> startswith (label @ rest) p = startswith label p"
  by (simp add: startswith_def)

lemma field_line_plain:
  "5 \<le> length label \<Longrightarrow> \<not> startswith label ''#### ''
     \<Longrightarrow> heading_count (field_line e label x key dflt ending) \<le> 0"
  unfolding field_line_def
  by (rule heading_count_with_val) (simp add: heading_count_fwrite_plain startswith_long)

lemma render_element_plain: "heading_count (render_element e element) \<le> 0"
  unfolding render_element_def
  by (intro heading_count_with_val)
     (simp add: heading_count_fwrite_plain heading_count_skip startswith_def with_val_def
        heading_count_throw split: sum.splits)

lemma render_elements_plain: "heading_count (render_elements e detector) \<le> 0"
proof -
  have inner: "heading_count (seqs (map (render_element e) xs)) \<le> 0" for xs
    using heading_count_map [of xs "render_element e" 0] render_element_plain by simp
  have affected: "heading_count (with_val (py_slice 3 elements) (\<lambda>first.
                 with_val (py_iter first) (\<lambda>xs. seqs (map (render_element e) xs)))) \<le> 0"
    for elements
    by (intro heading_count_with_val inner)
  have "heading_count (seqs
              [fwrite ''**Affected Files:**\<newline>'',
               with_val (py_slice 3 elements) (\<lambda>first.
                 with_val (py_iter first) (\<lambda>xs. seqs (map (render_element e) xs))),
               fwrite ''\<newline>'']) = 0" for elements
    using affected [of elements]
    by (intro heading_count_plain) (simp add: heading_count_fwrite_plain startswith_def)
  then show ?thesis
    unfolding render_elements_def
    by (intro heading_count_with_val) (simp add: heading_count_skip)
qed

lemma length_enumerate1: "length (enumerate1 xs) = length xs"
  by (simp add: enumerate1_def del: upt_Suc)

lemma enumerate1_snd: "nd \<in> set (enumerate1 xs) \<Longrightarrow> snd nd \<in> set xs"
  by (cases nd) (auto simp add: enumerate1_def dest: set_zip_rightD)

lemma sliced_count:
  assumes one: "\<And>nd. heading_count (f nd) \<le> 1"
    and none: "\<And>i c. heading_count (f (i, JStr c)) \<le> 0"
    and sliced: "py_slice n x = Inr first"
    and iter: "py_iter first = Inr ds"
  shows "heading_count (seqs (map f (enumerate1 ds))) \<le> n"
proof (cases x)
  case (JArr xs)
  with sliced iter have ds: "ds = take n xs"
    by (auto simp add: py_slice_def py_iter_def)
  have "heading_count (seqs (map f (enumerate1 ds))) \<le> 1 * length (enumerate1 ds)"
    by (rule heading_count_map) (rule one)
  then show ?thesis by (simp add: length_enumerate1 ds)
next
  case (JStr s)
  with sliced iter obtain cs where ds: "ds = map JStr cs"
    by (auto simp add: py_slice_def py_iter_def)
  have "heading_count (seqs (map f (enumerate1 ds))) \<le> 0 * length (enumerate1 ds)"
  proof (rule heading_count_map)
    fix nd
    assume "nd \<in> set (enumerate1 ds)"
    then have "snd nd \<in> set ds" by (rule enumerate1_snd)
    with ds obtain c where "snd nd = JStr c" by auto
    then have "nd = (fst nd, JStr c)" by (cases nd) simp
    then show "heading_count (f nd) \<le> 0" using none [of "fst nd" c] by simp
  qed
  then show ?thesis by simp
qed (use sliced in \<open>simp_all add: py_slice_def\<close>)

lemma render_detector_heading: "heading_count (render_detector e nd) \<le> 1"
proof -
  let ?d = "snd nd"
  have a: "heading_count (field_line e (''#### '' @ show_nat (fst nd) @ ''. '') ?d ''check''
             ''Unknown'' ''\<newline>\<newline>'') \<le> 1"
    by (rule field_line_heading)
  have b: "heading_count (field_line e ''**Impact:** '' ?d ''impact'' ''Unknown'' ''\<newline>'') \<le> 0"
    by (rule field_line_plain) (simp_all add: startswith_def)
  have c: "heading_count (field_line e ''**Confidence:** '' ?d ''confidence'' ''Unknown''
             ''\<newline>'') \<le> 0"
    by (rule field_line_plain) (simp_all add: startswith_def)
  have d: "heading_count (field_line e ''**Description:** '' ?d ''description''
             ''No description'' ''\<newline>\<newline>'') \<le> 0"
    by (rule field_line_plain) (simp_all add: startswith_def)
  have el: "heading_count (render_elements e ?d) \<le> 0"
    by (rule render_elements_plain)
  have idl: "heading_count (with_val (py_get ?d ''id'' JNull) (\<lambda>v.
           if py_truthy v
           then fwrite (''**Detector ID:** `'' @ py_str (repr e) v @ ''`\<newline>\<newline>'')
           else skip)) \<le> 0"
    by (rule heading_count_with_val)
       (simp add: heading_count_fwrite_plain heading_count_skip startswith_def)
  have sk: "heading_count skip \<le> 0"
    by (simp add: heading_count_skip)
  from heading_count_seq [OF a heading_count_seq [OF b heading_count_seq [OF c
        heading_count_seq [OF d heading_count_seq [OF el heading_count_seq [OF idl sk]]]]]]
  show ?thesis by (simp add: render_detector_def Let_def)
qed

lemma render_detector_text: "heading_count (render_detector e (i, JStr c)) \<le> 0"
  by (simp add: render_detector_def Let_def field_line_def py_get_def with_val_def seq_throw
      heading_count_throw)

lemma render_detectors_heading: "heading_count (render_detectors e detectors) \<le> 10"
proof -
  have listed: "heading_count (with_val (py_slice 10 detectors) (\<lambda>first.
                with_val (py_iter first) (\<lambda>ds.
                  seqs (map (render_detector e) (enumerate1 ds))))) \<le> 10"
    by (intro heading_count_with_val)
       (rule sliced_count [where f = "render_detector e", OF render_detector_heading render_detector_text])
  have opened: "heading_count (fwrite ''### Detailed Findings\<newline>\<newline>'') \<le> 0"
    by (simp add: heading_count_fwrite_plain startswith_def)
  from heading_count_seq [OF opened listed] show ?thesis
    by (simp add: render_detectors_def heading_count_fwrite_plain startswith_def)
qed

lemma error_line_plain: "heading_count (error_line r) = 0"
  by (simp add: error_line_def heading_count_fwrite_plain heading_count_skip startswith_def
      split: option.splits)

lemma slither_section_heading: "heading_count (slither_section e r) \<le> 10"
proof -
  have title: "heading_count (fwrite ''## Slither Static Analysis Results\<newline>\<newline>'') \<le> 0"
    by (simp add: heading_count_fwrite_plain startswith_def)
  have ok: "heading_count (fwrite (check_mark @ '' Slither analysis completed successfully\<newline>\<newline>'')) \<le> 0"
    by (simp add: heading_count_fwrite_plain startswith_def check_mark_def)
  have bad: "heading_count (fwrite (cross_mark @ '' Slither analysis failed\<newline>\<newline>'')) \<le> 0"
    by (simp add: heading_count_fwrite_plain startswith_def cross_mark_def)
  have findings: "heading_count (with_val doc (\<lambda>slither_data.
          with_val (get_detectors slither_data) (render_detectors e))) \<le> 10" for doc
    by (intro heading_count_with_val render_detectors_heading)
  have detail: "heading_count (case output_file r of
                  None \<Rightarrow> skip
                | Some file \<Rightarrow>
                    if file = [] then skip
                    else (case output_at_report e file of
                            None \<Rightarrow> skip
                          | Some doc \<Rightarrow>
                              with_val doc (\<lambda>slither_data.
                                with_val (get_detectors slither_data) (render_detectors e)))) \<le> 10"
    using findings by (simp add: heading_count_skip split: option.splits)
  have err: "heading_count (error_line r) \<le> 10"
    by (simp add: error_line_plain)
  have "heading_count (if success r
        then seq (fwrite (check_mark @ '' Slither analysis completed successfully\<newline>\<newline>''))
               (case output_file r of
                  None \<Rightarrow> skip
                | Some file \<Rightarrow>
                    if file = [] then skip
                    else (case output_at_report e file of
                            None \<Rightarrow> skip
                          | Some doc \<Rightarrow>
                              with_val doc (\<lambda>slither_data.
                                with_val (get_detectors slither_data) (render_detectors e))))
        else seq (fwrite (cross_mark @ '' Slither analysis failed\<newline>\<newline>''))
               (error_line r)) \<le> 0 + 10"
    using heading_count_seq [OF ok detail] heading_count_seq [OF bad err] by simp
  from heading_count_seq [OF title this] show ?thesis
    by (simp add: slither_section_def)
qed

lemma render_locations_plain: "heading_count (render_locations e issue) \<le> 0"
proof -
  have loc: "heading_count (render_location e l) \<le> 0" for l
    unfolding render_location_def
    by (intro heading_count_with_val) (simp add: heading_count_fwrite_plain startswith_def)
  have inner: "heading_count (seqs (map (render_location e) ls)) \<le> 0" for ls
    using heading_count_map [of ls "render_location e" 0] loc by simp
  have listed: "heading_count (with_val (py_iter locations)
                  (\<lambda>ls. seqs (map (render_location e) ls))) \<le> 0" for locations
    by (intro heading_count_with_val inner)
  have "heading_count (seqs
              [fwrite ''**Locations:**\<newline>'',
               with_val (py_iter locations) (\<lambda>ls. seqs (map (render_location e) ls)),
               fwrite ''\<newline>'']) = 0" for locations
    using listed [of locations]
    by (intro heading_count_plain) (simp add: heading_count_fwrite_plain startswith_def)
  then show ?thesis
    unfolding render_locations_def
    by (intro heading_count_with_val) (simp add: heading_count_skip)
qed

lemma render_issue_heading: "heading_count (render_issue e nd) \<le> 1"
proof -
  let ?d = "snd nd"
  have a: "heading_count (field_line e (''#### '' @ show_nat (fst nd) @ ''. '') ?d ''title''
             ''Unknown Issue'' ''\<newline>\<newline>'') \<le> 1"
    by (rule field_line_heading)
  have b: "heading_count (field_line e ''**Severity:** '' ?d ''severity'' ''Unknown''
             ''\<newline>'') \<le> 0"
    by (rule field_line_plain) (simp_all add: startswith_def)
  have d: "heading_count (field_line e ''**Description:** '' ?d ''description''
             ''No description'' ''\<newline>\<newline>'') \<le> 0"
    by (rule field_line_plain) (simp_all add: startswith_def)
  have l: "heading_count (render_locations e ?d) \<le> 0"
    by (rule render_locations_plain)
  have sk: "heading_count skip \<le> 0"
    by (simp add: heading_count_skip)
  from heading_count_seq [OF a heading_count_seq [OF b heading_count_seq [OF d
        heading_count_seq [OF l sk]]]]
  show ?thesis by (simp add: render_issue_def Let_def)
qed

lemma render_issue_text: "heading_count (render_issue e (i, JStr c)) \<le> 0"
  by (simp add: render_issue_def Let_def field_line_def py_get_def with_val_def seq_throw
      heading_count_throw)

lemma render_issues_heading: "heading_count (render_issues e issues_v) \<le> 5"
proof -
  have "heading_count (with_val (py_slice 5 issues_v) (\<lambda>first.
             with_val (py_iter first) (\<lambda>xs. seqs (map (render_issue e) (enumerate1 xs)))))
          \<le> 5"
    by (intro heading_count_with_val)
       (rule sliced_count [where f = "render_issue e", OF render_issue_heading render_issue_text])
  then show ?thesis
    by (simp add: render_issues_def heading_count_fwrite_plain startswith_def)
qed

lemma contract_heading_plain: "heading_count (fwrite (contract_heading r)) \<le> 0"
  by (simp add: heading_count_fwrite_plain contract_heading_def startswith_def)

lemma render_mythril_heading: "heading_count (render_mythril e r) \<le> 5"
proof -
  have ok: "heading_count (fwrite (check_mark @ '' Analysis completed successfully\<newline>\<newline>'')) \<le> 0"
    by (simp add: heading_count_fwrite_plain startswith_def check_mark_def)
  have bad: "heading_count (fwrite (cross_mark @ '' Analysis failed\<newline>\<newline>'')) \<le> 0"
    by (simp add: heading_count_fwrite_plain startswith_def cross_mark_def)
  have err: "heading_count (error_line r) \<le> 5"
    by (simp add: error_line_plain)
  have "heading_count
          (if success r
           then seq (fwrite (check_mark @ '' Analysis completed successfully\<newline>\<newline>''))
                  (render_issues e (case issues r of Some v \<Rightarrow> v | None \<Rightarrow> JArr []))
           else seq (fwrite (cross_mark @ '' Analysis failed\<newline>\<newline>'')) (error_line r))
        \<le> 0 + 5"
    using heading_count_seq [OF ok render_issues_heading] heading_count_seq [OF bad err]
    by simp
  from heading_count_seq [OF contract_heading_plain this] show ?thesis
    by (simp add: render_mythril_def)
qed

lemma mythril_section_heading:
  "heading_count (mythril_section e my) \<le> 5 * length my"
proof -
  have title: "heading_count (fwrite ''## Mythril Symbolic Analysis Results\<newline>\<newline>'') \<le> 0"
    by (simp add: heading_count_fwrite_plain startswith_def)
  have each: "heading_count (seqs (map (render_mythril e) my)) \<le> 5 * length my"
    by (rule heading_count_map) (rule render_mythril_heading)
  from heading_count_seq [OF title each] show ?thesis
    by (simp add: mythril_section_def)
qed

lemma render_gas_plain: "heading_count (render_gas r) \<le> 0"
proof -
  have ok: "heading_count (fwrite (check_mark @ '' Gas analysis completed successfully\<newline>\<newline>'')) \<le> 0"
    by (simp add: heading_count_fwrite_plain startswith_def check_mark_def)
  have named: "heading_count (case output_file r of
                  Some file \<Rightarrow>
                    if file \<noteq> [] then fwrite (''Detailed report: `'' @ file @ ''`\<newline>\<newline>'')
                    else skip
                | None \<Rightarrow> skip) \<le> 0"
    by (simp add: heading_count_fwrite_plain heading_count_skip startswith_def
        split: option.splits)
  have bad: "heading_count (fwrite (cross_mark @ '' Gas analysis failed\<newline>\<newline>'')) \<le> 0"
    by (simp add: heading_count_fwrite_plain startswith_def cross_mark_def)
  have "heading_count
          (if success r
           then seq (fwrite (check_mark @ '' Gas analysis completed successfully\<newline>\<newline>''))
                  (case output_file r of
                     Some file \<Rightarrow>
                       if file \<noteq> [] then fwrite (''Detailed report: `'' @ file @ ''`\<newline>\<newline>'')
                       else skip
                   | None \<Rightarrow> skip)
           else fwrite (cross_mark @ '' Gas analysis failed\<newline>\<newline>'')) \<le> 0"
    using heading_count_seq [OF ok named] bad by simp
  from heading_count_seq [OF contract_heading_plain this] show ?thesis
    by (simp add: render_gas_def)
qed

lemma gas_section_plain: "heading_count (gas_section gs) \<le> 0"
proof -
  have title: "heading_count (fwrite ''## Gas Analysis Results\<newline>\<newline>'') \<le> 0"
    by (simp add: heading_count_fwrite_plain startswith_def)
  have "heading_count (seqs (map render_gas gs)) \<le> 0 * length gs"
    by (rule heading_count_map) (rule render_gas_plain)
  then have each: "heading_count (seqs (map render_gas gs)) \<le> 0"
    by simp
  from heading_count_seq [OF title each] show ?thesis
    by (simp add: gas_section_def)
qed

lemma report_head_plain: "heading_count (report_head e a f) = 0"
  unfolding report_head_def
  by (rule heading_count_plain) (simp add: heading_count_fwrite_plain startswith_def)

lemma impact_levels_plain: "heading_count (impact_levels r) = 0"
proof (cases "impacts r")
  case None
  then show ?thesis by (simp add: impact_levels_def heading_count_skip)
next
  case (Some imp)
  have "heading_count (seqs
            ([fwrite ''### Slither Impact Levels\<newline>\<newline>''] @
             map (\<lambda>item. fwrite (''- **'' @ py_title (fst item) @ '':** '' @ show_nat (snd item)
                               @ ''\<newline>''))
               (impact_items imp) @
             [fwrite ''\<newline>''])) = 0"
    by (rule heading_count_plain)
       (auto simp add: heading_count_fwrite_plain startswith_def)
  with Some show ?thesis by (simp add: impact_levels_def)
qed

lemma executive_summary_plain: "heading_count (executive_summary e a sl my) = 0"
  unfolding executive_summary_def Let_def
  by (rule heading_count_plain)
     (simp add: heading_count_fwrite_plain startswith_def impact_levels_plain)

lemma closing_plain: "heading_count closing = 0"
  unfolding closing_def
  by (rule heading_count_plain) (simp add: heading_count_fwrite_plain startswith_def)

lemma report_out_heading:
  "heading_count (report_out e a sl my gs) \<le> 10 + 5 * length my"
proof -
  have "list_all2 (\<lambda>p n. heading_count p \<le> n)
          [executive_summary e a sl my, slither_section e sl, mythril_section e my,
           gas_section gs, closing]
          [0, 10, 5 * length my, 0, 0]"
    using executive_summary_plain [of e a sl my] slither_section_heading [of e sl]
      mythril_section_heading [of e my] gas_section_plain [of gs] closing_plain
    by simp
  from heading_count_seqs [OF this]
  have body: "heading_count (report_body e a sl my gs) \<le> 10 + 5 * length my"
    by (simp add: report_body_def)
  have head: "heading_count (report_head e a (report_file_of a)) \<le> 0"
    by (simp add: report_head_plain)
  from heading_count_seq [OF head body] show ?thesis
    by (simp add: report_out_def)
qed

lemma render_detector_dict:
  "render_detector e (i, JObj kvs)
     = seqs
         [fwrite (''#### '' @ show_nat i @ ''. '' @ field_text e kvs ''check'' ''Unknown''
                    @ ''\<newline>\<newline>''),
          fwrite (''**Impact:** '' @ field_text e kvs ''impact'' ''Unknown'' @ ''\<newline>''),
          fwrite (''**Confidence:** '' @ field_text e kvs ''confidence'' ''Unknown''
                    @ ''\<newline>''),
          fwrite (''**Description:** '' @ field_text e kvs ''description'' ''No description''
                    @ ''\<newline>\<newline>''),
          render_elements e (JObj kvs),
          case map_of kvs ''id'' of
            None \<Rightarrow> skip
          | Some v \<Rightarrow>
              if py_truthy v
              then fwrite (''**Detector ID:** `'' @ py_str (repr e) v @ ''`\<newline>\<newline>'')
              else skip]"
proof -
  have "with_val (py_get (JObj kvs) ''id'' JNull) (\<lambda>v.
           if py_truthy v
           then fwrite (''**Detector ID:** `'' @ py_str (repr e) v @ ''`\<newline>\<newline>'')
           else skip)
      = (case map_of kvs ''id'' of
            None \<Rightarrow> skip
          | Some v \<Rightarrow>
              if py_truthy v
              then fwrite (''**Detector ID:** `'' @ py_str (repr e) v @ ''`\<newline>\<newline>'')
              else skip)"
    by (simp add: py_get_def with_val_def py_truthy_def split: option.splits)
  then show ?thesis
    unfolding render_detector_def Let_def fst_conv snd_conv field_line_dict
    by (simp only: append_assoc)
qed

lemma render_elements_listed:
  "map_of kvs ''elements'' = Some (JArr els) \<Longrightarrow> els \<noteq> [] \<Longrightarrow>
     render_elements e (JObj kvs)
       = seqs [fwrite ''**Affected Files:**\<newline>'',
               seqs (map (render_element e) (take 3 els)),
               fwrite ''\<newline>'']"
  by (simp add: render_elements_def py_get_def with_val_def py_truthy_def py_slice_def
      py_iter_def)

lemma render_element_dict:
  "render_element e (JObj kvs)
     = (case map_of kvs ''source_mapping'' of
          None \<Rightarrow> skip
        | Some sm \<Rightarrow>
            if py_truthy sm
            then (case sm of
                    JObj m \<Rightarrow>
                      (case map_of m ''filename'' of
                         Some v \<Rightarrow> fwrite (''- `'' @ py_str (repr e) v @ ''`\<newline>'')
                       | None \<Rightarrow> throw (KeyError ''filename''))
                  | _ \<Rightarrow> throw (TypeError sm ''subscript''))
            else skip)"
  by (simp add: render_element_def py_get_def with_val_def py_truthy_def py_subscript_def
      split: option.splits json.splits)

lemma render_issue_dict:
  "render_issue e (i, JObj kvs)
     = seqs
         [fwrite (''#### '' @ show_nat i @ ''. '' @ field_text e kvs ''title'' ''Unknown Issue''
                    @ ''\<newline>\<newline>''),
          fwrite (''**Severity:** '' @ field_text e kvs ''severity'' ''Unknown'' @ ''\<newline>''),
          fwrite (''**Description:** '' @ field_text e kvs ''description'' ''No description''
                    @ ''\<newline>\<newline>''),
          render_locations e (JObj kvs)]"
  unfolding render_issue_def Let_def fst_conv snd_conv field_line_dict
  by (simp only: append_assoc)

lemma render_locations_listed:
  "map_of kvs ''locations'' = Some (JArr ls) \<Longrightarrow> ls \<noteq> [] \<Longrightarrow>
     render_locations e (JObj kvs)
       = seqs [fwrite ''**Locations:**\<newline>'',
               seqs (map (render_location e) ls),
               fwrite ''\<newline>'']"
  by (simp add: render_locations_def py_get_def with_val_def py_truthy_def py_iter_def)

lemma render_location_dict:
  "render_location e (JObj kvs)
     = fwrite (''- Line '' @ field_text e kvs ''start_line'' ''Unknown'' @ '' in ''
                 @ field_text e kvs ''source_map'' ''Unknown'' @ ''\<newline>'')"
  by (simp add: render_location_def py_get_def with_val_def field_text_def
      split: option.splits)

lemma map_of_filter_other:
  "k \<noteq> k' \<Longrightarrow> map_of (filter (\<lambda>kv. fst kv \<noteq> k') kvs) k = map_of kvs k"
  by (induction kvs) auto

lemma render_issue_no_confidence:
  "render_issue e (i, JObj (filter (\<lambda>kv. fst kv \<noteq> ''confidence'') kvs))
     = render_issue e (i, JObj kvs)"
  by (simp add: render_issue_def Let_def field_line_def render_locations_def py_get_def
      map_of_filter_other)

lemma seq_stopped: "snd p = Some ex \<Longrightarrow> seq p q = p"
  by (simp add: seq_def)

text \<open>
  C5, as the code has it. A report has at most 10 headings of Slither findings and at
  most 5 headings of Mythril issues for each Mythril result, and no other heading of
  that level: at most 10 and five times the number of Mythril results in all. Every
  text is written with \<^verbatim>\<open>f.write\<close>, which raises if the text cannot be encoded, and
  once a write or a reading has raised nothing more is written. A Slither finding that
  is a dict is rendered by writing its check, impact, confidence and description, then
  its elements, then its id if it has one. The elements, when they are a non-empty
  list, are rendered by the first three: an element that is a dict writes nothing if
  its source mapping is absent or empty, writes the file name of a source mapping that
  is a dict with one, and raises on any other source mapping. A Mythril issue that is a
  dict is rendered by writing its title, severity and description, then all its
  locations when they are a non-empty list, each with line and source map; it shows no
  confidence: the issue is rendered as it would be without that key.
\<close>

theorem report_findings_rendered:
  "heading_count (slither_section e sl) \<le> 10 \<and>
   heading_count (render_mythril e r) \<le> 5 \<and>
   heading_count (mythril_section e my) \<le> 5 * length my \<and>
   heading_count (report_out e a sl my gs) \<le> 10 + 5 * length my \<and>
   (\<forall>p q ex. snd p = Some ex \<longrightarrow> seq p q = p) \<and>
   (\<forall>s. fwrite s = (if encodable s then ([s], None) else ([], Some (UnicodeEncodeError s)))) \<and>
   render_detector e (i, JObj kvs)
     = seqs
         [fwrite (''#### '' @ show_nat i @ ''. '' @ field_text e kvs ''check'' ''Unknown''
                    @ ''\<newline>\<newline>''),
          fwrite (''**Impact:** '' @ field_text e kvs ''impact'' ''Unknown'' @ ''\<newline>''),
          fwrite (''**Confidence:** '' @ field_text e kvs ''confidence'' ''Unknown''
                    @ ''\<newline>''),
          fwrite (''**Description:** '' @ field_text e kvs ''description'' ''No description''
                    @ ''\<newline>\<newline>''),
          render_elements e (JObj kvs),
          case map_of kvs ''id'' of
            None \<Rightarrow> skip
          | Some v \<Rightarrow>
              if py_truthy v
              then fwrite (''**Detector ID:** `'' @ py_str (repr e) v @ ''`\<newline>\<newline>'')
              else skip] \<and>
   (\<forall>els. map_of kvs ''elements'' = Some (JArr els) \<and> els \<noteq> [] \<longrightarrow>
      render_elements e (JObj kvs)
        = seqs [fwrite ''**Affected Files:**\<newline>'',
                seqs (map (render_element e) (take 3 els)),
                fwrite ''\<newline>'']) \<and>
   render_element e (JObj kvs)
     = (case map_of kvs ''source_mapping'' of
          None \<Rightarrow> skip
        | Some sm \<Rightarrow>
            if py_truthy sm
            then (case sm of
                    JObj m \<Rightarrow>
                      (case map_of m ''filename'' of
                         Some v \<Rightarrow> fwrite (''- `'' @ py_str (repr e) v @ ''`\<newline>'')
                       | None \<Rightarrow> throw (KeyError ''filename''))
                  | _ \<Rightarrow> throw (TypeError sm ''subscript''))
            else skip) \<and>
   render_issue e (i, JObj kvs)
     = seqs
         [fwrite (''#### '' @ show_nat i @ ''. '' @ field_text e kvs ''title'' ''Unknown Issue''
                    @ ''\<newline>\<newline>''),
          fwrite (''**Severity:** '' @ field_text e kvs ''severity'' ''Unknown'' @ ''\<newline>''),
          fwrite (''**Description:** '' @ field_text e kvs ''description'' ''No description''
                    @ ''\<newline>\<newline>''),
          render_locations e (JObj kvs)] \<and>
   (\<forall>ls. map_of kvs ''locations'' = Some (JArr ls) \<and> ls \<noteq> [] \<longrightarrow>
      render_locations e (JObj kvs)
        = seqs [fwrite ''**Locations:**\<newline>'',
                seqs (map (render_location e) ls),
                fwrite ''\<newline>'']) \<and>
   render_location e (JObj kvs)
     = fwrite (''- Line '' @ field_text e kvs ''start_line'' ''Unknown'' @ '' in ''
                 @ field_text e kvs ''source_map'' ''Unknown'' @ ''\<newline>'') \<and>
   render_issue e (i, JObj (filter (\<lambda>kv. fst kv \<noteq> ''confidence'') kvs))
     = render_issue e (i, JObj kvs)"
proof (intro conjI allI impI)
  show "heading_count (slither_section e sl) \<le> 10"
    by (rule slither_section_heading)
  show "heading_count (render_mythril e r) \<le> 5"
    by (rule render_mythril_heading)
  show "heading_count (mythril_section e my) \<le> 5 * length my"
    by (rule mythril_section_heading)
  show "heading_count (report_out e a sl my gs) \<le> 10 + 5 * length my"
    by (rule report_out_heading)
  show "seq p q = p" if "snd p = Some ex" for p q ex
    using that by (rule seq_stopped)
  show "fwrite s = (if encodable s then ([s], None) else ([], Some (UnicodeEncodeError s)))"
    for s
    by (simp add: fwrite_def wr_def throw_def)
  show "render_detector e (i, JObj kvs)
     = seqs
         [fwrite (''#### '' @ show_nat i @ ''. '' @ field_text e kvs ''check'' ''Unknown''
                    @ ''\<newline>\<newline>''),
          fwrite (''**Impact:** '' @ field_text e kvs ''impact'' ''Unknown'' @ ''\<newline>''),
          fwrite (''**Confidence:** '' @ field_text e kvs ''confidence'' ''Unknown''
                    @ ''\<newline>''),
          fwrite (''**Description:** '' @ field_text e kvs ''description'' ''No description''
                    @ ''\<newline>\<newline>''),
          render_elements e (JObj kvs),
          case map_of kvs ''id'' of
            None \<Rightarrow> skip
          | Some v \<Rightarrow>
              if py_truthy v
              then fwrite (''**Detector ID:** `'' @ py_str (repr e) v @ ''`\<newline>\<newline>'')
              else skip]"
    by (rule render_detector_dict)
  show "render_elements e (JObj kvs)
        = seqs [fwrite ''**Affected Files:**\<newline>'',
                seqs (map (render_element e) (take 3 els)),
                fwrite ''\<newline>'']"
    if "map_of kvs ''elements'' = Some (JArr els) \<and> els \<noteq> []" for els
    using that by (intro render_elements_listed) simp_all
  show "render_element e (JObj kvs)
     = (case map_of kvs ''source_mapping'' of
          None \<Rightarrow> skip
        | Some sm \<Rightarrow>
            if py_truthy sm
            then (case sm of
                    JObj m \<Rightarrow>
                      (case map_of m ''filename'' of
                         Some v \<Rightarrow> fwrite (''- `'' @ py_str (repr e) v @ ''`\<newline>'')
                       | None \<Rightarrow> throw (KeyError ''filename''))
                  | _ \<Rightarrow> throw (TypeError sm ''subscript''))
            else skip)"
    by (rule render_element_dict)
  show "render_issue e (i, JObj kvs)
     = seqs
         [fwrite (''#### '' @ show_nat i @ ''. '' @ field_text e kvs ''title'' ''Unknown Issue''
                    @ ''\<newline>\<newline>''),
          fwrite (''**Severity:** '' @ field_text e kvs ''severity'' ''Unknown'' @ ''\<newline>''),
          fwrite (''**Description:** '' @ field_text e kvs ''description'' ''No description''
                    @ ''\<newline>\<newline>''),
          render_locations e (JObj kvs)]"
    by (rule render_issue_dict)
  show "render_locations e (JObj kvs)
        = seqs [fwrite ''**Locations:**\<newline>'',
                seqs (map (render_location e) ls),
                fwrite ''\<newline>'']"
    if "map_of kvs ''locations'' = Some (JArr ls) \<and> ls \<noteq> []" for ls
    using that by (intro render_locations_listed) simp_all
  show "render_location e (JObj kvs)
     = fwrite (''- Line '' @ field_text e kvs ''start_line'' ''Unknown'' @ '' in ''
                 @ field_text e kvs ''source_map'' ''Unknown'' @ ''\<newline>'')"
    by (rule render_location_dict)
  show "render_issue e (i, JObj (filter (\<lambda>kv. fst kv \<noteq> ''confidence'') kvs))
     = render_issue e (i, JObj kvs)"
    by (rule render_issue_no_confidence)
qed

theorem report_findings_rendered_witness:
  "heading_count (slither_section twelve_env slither_ok) \<le> 10 \<and>
   heading_count (slither_section twelve_env slither_ok) = 10 \<and>
   render_elements quiet_env sample_detector
     = ([''**Affected Files:**\<newline>'', ''- `contracts/A.sol`\<newline>'',
         ''- `contracts/B.sol`\<newline>'', ''- `contracts/C.sol`\<newline>'', ''\<newline>''], None) \<and>
   render_elements quiet_env unmapped_detector
     = ([''**Affected Files:**\<newline>'', ''- `contracts/A.sol`\<newline>''],
        Some (KeyError ''filename''))"
proof -
  note general = report_findings_rendered [where e = twelve_env and sl = slither_ok]
  have bound: "heading_count (slither_section twelve_env slither_ok) \<le> 10"
    by (rule general [THEN conjunct1])
  have ten: "heading_count (slither_section twelve_env slither_ok) = 10"
    by code_simp
  have els: "map_of [(''check'', JStr ''reentrancy-eth''), (''elements'', JArr sample_elements)]
        ''elements'' = Some (JArr sample_elements) \<and> sample_elements \<noteq> []"
    by (simp add: sample_elements_def)
  from report_findings_rendered
      [where e = quiet_env
         and kvs = "[(''check'', JStr ''reentrancy-eth''), (''elements'', JArr sample_elements)]",
       THEN conjunct2, THEN conjunct2, THEN conjunct2, THEN conjunct2, THEN conjunct2,
       THEN conjunct2, THEN conjunct2, THEN conjunct1, rule_format, OF els]
  have "render_elements quiet_env sample_detector
     = seqs [fwrite ''**Affected Files:**\<newline>'',
             seqs (map (render_element quiet_env) (take 3 sample_elements)),
             fwrite ''\<newline>'']"
    by (simp add: sample_detector_def)
  also have "\<dots> = ([''**Affected Files:**\<newline>'', ''- `contracts/A.sol`\<newline>'',
         ''- `contracts/B.sol`\<newline>'', ''- `contracts/C.sol`\<newline>'', ''\<newline>''], None)"
    by code_simp
  finally have listed: "render_elements quiet_env sample_detector
     = ([''**Affected Files:**\<newline>'', ''- `contracts/A.sol`\<newline>'',
         ''- `contracts/B.sol`\<newline>'', ''- `contracts/C.sol`\<newline>'', ''\<newline>''], None)" .
  have cut: "render_elements quiet_env unmapped_detector
     = ([''**Affected Files:**\<newline>'', ''- `contracts/A.sol`\<newline>''],
        Some (KeyError ''filename''))"
    by code_simp
  from bound ten listed cut show ?thesis by (intro conjI)
qed

text \<open>
  The claim as stated fails: a Mythril issue that carries a confidence is rendered
  without it.
\<close>

theorem mythril_confidence_counterexample:
  "py_get sample_issue ''confidence'' JNull = Inr (JStr ''Certain'') \<and>
   render_issue quiet_env (1, sample_issue)
     = ([''#### 1. Integer Overflow\<newline>\<newline>'',
         ''**Severity:** High\<newline>'',
         ''**Description:** The arithmetic operation can overflow.\<newline>\<newline>'',
         ''**Locations:**\<newline>'',
         ''- Line 42 in TokenA.sol\<newline>'',
         ''\<newline>''], None) \<and>
   \<not> contains ''Certain'' (concat (fst (render_issue quiet_env (1, sample_issue)))) \<and>
   \<not> contains ''onfidence'' (concat (fst (render_issue quiet_env (1, sample_issue))))"
  by code_simp

end
